theory Spec2Isabelle
  imports Complex_Main
begin

section \<open>JavaScript values used by the intake engine\<close>

text \<open>
  A JavaScript string is a sequence of UTF-16 code units; a code unit is modelled as a
  natural number, so that \<^verbatim>\<open>t.length\<close> is the length of the list.
\<close>

type_synonym jsstring = "nat list"

definition js :: "string \<Rightarrow> jsstring" where
  "js s = map of_char s"

text \<open>White space and line terminators of ECMAScript: what \<^verbatim>\<open>\s\<close> matches and
  \<^verbatim>\<open>trim()\<close> strips.\<close>

definition isSpace :: "nat \<Rightarrow> bool" where
  "isSpace c = (c = 32 \<or> (9 \<le> c \<and> c \<le> 13) \<or> c = 160 \<or> c = 5760 \<or> (8192 \<le> c \<and> c \<le> 8202)
     \<or> c = 8232 \<or> c = 8233 \<or> c = 8239 \<or> c = 8287 \<or> c = 12288 \<or> c = 65279)"

definition isDigit :: "nat \<Rightarrow> bool" where
  "isDigit c = (48 \<le> c \<and> c \<le> 57)"

definition isUpper :: "nat \<Rightarrow> bool" where
  "isUpper c = (65 \<le> c \<and> c \<le> 90)"

definition isLower :: "nat \<Rightarrow> bool" where
  "isLower c = (97 \<le> c \<and> c \<le> 122)"

definition isAlpha :: "nat \<Rightarrow> bool" where
  "isAlpha c = (isLower c \<or> isUpper c)"

text \<open>\<^verbatim>\<open>\w\<close>: letters, digits and the underscore (ASCII only without the u flag).\<close>

definition isWord :: "nat \<Rightarrow> bool" where
  "isWord c = (isAlpha c \<or> isDigit c \<or> c = 95)"

definition notSpace :: "nat \<Rightarrow> bool" where
  "notSpace c = (\<not> isSpace c)"

definition oneOf :: "string \<Rightarrow> nat \<Rightarrow> bool" where
  "oneOf s c = (c \<in> set (js s))"

text \<open>Canonicalize of the i flag (no u flag): the upper-case form; a code unit above 127
  never canonicalises to an ASCII one, so against the ASCII letters of the patterns only the
  two ASCII cases match.\<close>

definition canon :: "nat \<Rightarrow> nat" where
  "canon c = (if isLower c then c - 32 else c)"

definition jsTrim :: "jsstring \<Rightarrow> jsstring" where
  "jsTrim t = rev (dropWhile isSpace (rev (dropWhile isSpace t)))"

text \<open>\<^verbatim>\<open>toLowerCase()\<close>. ASCII letters are mapped exactly, and so are the only two code
  units above 127 whose lower case holds an ASCII letter (the Kelvin sign and the dotted
  capital I). Every other code unit is left as it is: its lower case is neither ASCII nor
  white space, which is all that the patterns applied to a lower-cased text can tell.\<close>

definition lowerUnit :: "nat \<Rightarrow> jsstring" where
  "lowerUnit c = (if isUpper c then [c + 32] else if c = 8490 then [107]
                  else if c = 304 then [105, 775] else [c])"

definition toLowerCase :: "jsstring \<Rightarrow> jsstring" where
  "toLowerCase t = concat (map lowerUnit t)"

section \<open>JavaScript numbers\<close>

text \<open>
  A JavaScript number is an IEEE 754 double: a finite double (a rational of the form
  \<open>m * 2 ^ e\<close> with \<open>\<bar>m\<bar> < 2 ^ 53\<close> and \<open>- 1074 \<le> e \<le> 971\<close>), one of the two infinities,
  or NaN. The two zeros are one value here: the program never divides by a variable and
  never prints a number in a way that tells them apart. Every arithmetic operation returns
  the double nearest to the exact result, a tie going to the even significand, and what lies
  beyond the largest double by half a unit or more becomes an infinity.
\<close>

datatype number = Fin rat | PosInf | NegInf | NaN

text \<open>The number of binary digits of a natural number.\<close>

fun bitLength :: "nat \<Rightarrow> nat" where
  "bitLength n = (if n = 0 then 0 else Suc (bitLength (n div 2)))"

declare bitLength.simps [simp del]

definition pow2 :: "int \<Rightarrow> rat" where
  "pow2 e = (if 0 \<le> e then 2 ^ nat e else 1 / 2 ^ nat (- e))"

text \<open>For \<open>0 < a\<close>, the exponent of the greatest power of two that is not above \<open>a\<close>.\<close>

definition ilog2 :: "rat \<Rightarrow> int" where
  "ilog2 a = (if 1 \<le> a then int (bitLength (nat \<lfloor>a\<rfloor>)) - 1
              else - int (bitLength (nat (\<lceil>1 / a\<rceil> - 1))))"

text \<open>The nearest integer, a tie going to the even one.\<close>

definition roundHalfEven :: "rat \<Rightarrow> int" where
  "roundHalfEven q =
     (if q - of_int \<lfloor>q\<rfloor> < 1 / 2 then \<lfloor>q\<rfloor>
      else if 1 / 2 < q - of_int \<lfloor>q\<rfloor> then \<lfloor>q\<rfloor> + 1
      else if even \<lfloor>q\<rfloor> then \<lfloor>q\<rfloor> else \<lfloor>q\<rfloor> + 1)"

text \<open>The nearest multiple of \<open>2 ^ e\<close>.\<close>

definition roundAt :: "int \<Rightarrow> rat \<Rightarrow> rat" where
  "roundAt e a = of_int (roundHalfEven (a / pow2 e)) * pow2 e"

definition finite64 :: "rat \<Rightarrow> number" where
  "finite64 r = (if pow2 1024 \<le> r then PosInf else if r \<le> - pow2 1024 then NegInf else Fin r)"

text \<open>
  The double nearest to a rational. The unit of the last place of \<open>a\<close> is \<open>2 ^ e\<close> with
  \<open>e = ilog2 a - 52\<close>, and \<open>- 1074\<close> for the subnormal numbers, where rounding can give zero.
\<close>

definition roundDouble :: "rat \<Rightarrow> number" where
  "roundDouble x =
     (if x = 0 then Fin 0
      else if 0 < x then finite64 (roundAt (max (ilog2 x - 52) (- 1074)) x)
      else finite64 (- roundAt (max (ilog2 (- x) - 52) (- 1074)) (- x)))"

text \<open>The sign of a number that is not NaN.\<close>

definition negative :: "number \<Rightarrow> bool" where
  "negative a = (case a of Fin x \<Rightarrow> x < 0 | NegInf \<Rightarrow> True | _ \<Rightarrow> False)"

text \<open>\<^verbatim>\<open>a + b\<close>\<close>

definition dadd :: "number \<Rightarrow> number \<Rightarrow> number" where
  "dadd a b =
     (case (a, b) of
        (Fin x, Fin y) \<Rightarrow> roundDouble (x + y)
      | (Fin x, _) \<Rightarrow> b
      | (_, Fin y) \<Rightarrow> a
      | _ \<Rightarrow> if a = b then a else NaN)"

text \<open>\<^verbatim>\<open>a * b\<close>\<close>

definition dmul :: "number \<Rightarrow> number \<Rightarrow> number" where
  "dmul a b =
     (case (a, b) of
        (Fin x, Fin y) \<Rightarrow> roundDouble (x * y)
      | _ \<Rightarrow> if a = NaN \<or> b = NaN \<or> a = Fin 0 \<or> b = Fin 0 then NaN
             else if negative a = negative b then PosInf else NegInf)"

text \<open>\<^verbatim>\<open>a / b\<close>. A zero divisor is taken as the positive zero; the program divides by the
  constants 2 and 100 only.\<close>

definition ddiv :: "number \<Rightarrow> number \<Rightarrow> number" where
  "ddiv a b =
     (case (a, b) of
        (Fin x, Fin y) \<Rightarrow>
          if y \<noteq> 0 then roundDouble (x / y)
          else if x = 0 then NaN else if 0 < x then PosInf else NegInf
      | (Fin x, _) \<Rightarrow> if b = NaN then NaN else Fin 0
      | (_, Fin y) \<Rightarrow> if a = NaN then NaN else if negative a = (y < 0) then PosInf else NegInf
      | _ \<Rightarrow> NaN)"

text \<open>\<^verbatim>\<open>a < b\<close> and \<^verbatim>\<open>a <= b\<close>: false as soon as one side is NaN.\<close>

fun lt :: "number \<Rightarrow> number \<Rightarrow> bool" where
  "lt (Fin x) (Fin y) = (x < y)"
| "lt (Fin x) PosInf = True"
| "lt NegInf (Fin y) = True"
| "lt NegInf PosInf = True"
| "lt _ _ = False"

fun le :: "number \<Rightarrow> number \<Rightarrow> bool" where
  "le (Fin x) (Fin y) = (x \<le> y)"
| "le NaN _ = False"
| "le _ NaN = False"
| "le NegInf _ = True"
| "le _ PosInf = True"
| "le _ _ = False"

text \<open>\<^verbatim>\<open>a > b\<close> and \<^verbatim>\<open>a >= b\<close>\<close>

definition gt :: "number \<Rightarrow> number \<Rightarrow> bool" where
  "gt a b = lt b a"

definition ge :: "number \<Rightarrow> number \<Rightarrow> bool" where
  "ge a b = le b a"

text \<open>\<^verbatim>\<open>!isNaN(n) && n > 0\<close>\<close>

definition positive :: "number \<Rightarrow> bool" where
  "positive n = (n \<noteq> NaN \<and> gt n (Fin 0))"

text \<open>\<^verbatim>\<open>Math.round\<close>: the nearest integer, a half rounded up. The result is exact: a double
  of magnitude \<open>2 ^ 52\<close> or more is an integer already.\<close>

definition mathRound :: "number \<Rightarrow> number" where
  "mathRound a = (case a of Fin x \<Rightarrow> Fin (of_int \<lfloor>x + 1 / 2\<rfloor>) | _ \<Rightarrow> a)"

definition decValue :: "jsstring \<Rightarrow> nat" where
  "decValue ds = foldl (\<lambda>a c. 10 * a + (c - 48)) 0 ds"

definition signOf :: "jsstring \<Rightarrow> rat" where
  "signOf s = (case s of [] \<Rightarrow> 1 | c # _ \<Rightarrow> if c = 45 then - 1 else 1)"

definition dropSign :: "jsstring \<Rightarrow> jsstring" where
  "dropSign s = (case s of [] \<Rightarrow> [] | c # cs \<Rightarrow> if c = 45 \<or> c = 43 then cs else c # cs)"

text \<open>\<^verbatim>\<open>parseInt(s, 10)\<close>: the double nearest to the integer that the digits write; NaN
  without a digit, and for the argument \<^verbatim>\<open>undefined\<close> (\<open>None\<close>).\<close>

definition parseInt10 :: "jsstring option \<Rightarrow> number" where
  "parseInt10 arg =
     (case arg of
        None \<Rightarrow> NaN
      | Some s \<Rightarrow>
          (let s1 = dropWhile isSpace s;
               ds = takeWhile isDigit (dropSign s1)
           in if ds = [] then NaN else roundDouble (signOf s1 * of_nat (decValue ds))))"

text \<open>\<^verbatim>\<open>parseFloat(s)\<close> on decimal literals: optional sign, digits, optional fraction; the
  double nearest to the decimal value. Exponents and the word Infinity are not modelled: the
  program calls parseFloat only on a captured \<^verbatim>\<open>\d+(?:\.\d+)?\<close>.\<close>

definition parseFloat :: "jsstring option \<Rightarrow> number" where
  "parseFloat arg =
     (case arg of
        None \<Rightarrow> NaN
      | Some s \<Rightarrow>
          (let s1 = dropWhile isSpace s;
               s2 = dropSign s1;
               ip = takeWhile isDigit s2;
               s3 = dropWhile isDigit s2;
               fp = (case s3 of [] \<Rightarrow> [] | c # cs \<Rightarrow> if c = 46 then takeWhile isDigit cs else [])
           in if ip = [] \<and> fp = [] then NaN
              else roundDouble (signOf s1 * (of_nat (decValue ip) + of_nat (decValue fp) / 10 ^ length fp))))"

section \<open>Regular expressions\<close>

text \<open>
  The patterns of the program use literals, character classes, greedy repetition of a
  class, sequence, alternation, the greedy optional, capture groups, the anchors and the
  word boundary. \<open>Many P lo\<close> is the class \<open>P\<close> repeated \<open>lo\<close> times or more. The matcher
  is the backtracking matcher of ECMAScript with the continuation as a list of frames: it
  returns the first match in priority order. The state is the consumed text (reversed), the
  rest of the text and the captures made so far (the newest first).
\<close>

datatype regex =
    Chr "nat \<Rightarrow> bool"
  | Many "nat \<Rightarrow> bool" nat
  | Eps
  | Seq regex regex
  | Alt regex regex
  | Group nat regex
  | Bol
  | Eol
  | WordB

datatype frame = R regex | CloseG nat nat

fun rweight :: "regex \<Rightarrow> nat" where
  "rweight (Seq a b) = rweight a + rweight b + 1"
| "rweight (Alt a b) = rweight a + rweight b + 1"
| "rweight (Group i r) = rweight r + 2"
| "rweight _ = 1"

fun fweight :: "frame \<Rightarrow> nat" where
  "fweight (R r) = rweight r"
| "fweight (CloseG i n) = 1"

type_synonym caps = "(nat \<times> jsstring) list"

type_synonym mstate = "jsstring \<times> jsstring \<times> caps"

definition wordBefore :: "jsstring \<Rightarrow> bool" where
  "wordBefore s = (case s of [] \<Rightarrow> False | c # _ \<Rightarrow> isWord c)"

definition atBoundary :: "jsstring \<Rightarrow> jsstring \<Rightarrow> bool" where
  "atBoundary pre rest = (wordBefore pre \<noteq> wordBefore rest)"

function (sequential) matchFrames :: "frame list \<Rightarrow> jsstring \<Rightarrow> jsstring \<Rightarrow> caps \<Rightarrow> mstate option" where
  "matchFrames [] pre rest cs = Some (pre, rest, cs)"
| "matchFrames (CloseG i n # k) pre rest cs =
     matchFrames k pre rest ((i, rev (take (length pre - n) pre)) # cs)"
| "matchFrames (R Eps # k) pre rest cs = matchFrames k pre rest cs"
| "matchFrames (R (Chr P) # k) pre [] cs = None"
| "matchFrames (R (Chr P) # k) pre (c # rest) cs =
     (if P c then matchFrames k (c # pre) rest cs else None)"
| "matchFrames (R (Many P lo) # k) pre [] cs =
     (if lo = 0 then matchFrames k pre [] cs else None)"
| "matchFrames (R (Many P lo) # k) pre (c # rest) cs =
     (if P c then
        (case matchFrames (R (Many P (lo - 1)) # k) (c # pre) rest cs of
           Some x \<Rightarrow> Some x
         | None \<Rightarrow> if lo = 0 then matchFrames k pre (c # rest) cs else None)
      else if lo = 0 then matchFrames k pre (c # rest) cs else None)"
| "matchFrames (R (Seq a b) # k) pre rest cs = matchFrames (R a # R b # k) pre rest cs"
| "matchFrames (R (Alt a b) # k) pre rest cs =
     (case matchFrames (R a # k) pre rest cs of
        Some x \<Rightarrow> Some x
      | None \<Rightarrow> matchFrames (R b # k) pre rest cs)"
| "matchFrames (R (Group i r) # k) pre rest cs =
     matchFrames (R r # CloseG i (length pre) # k) pre rest cs"
| "matchFrames (R Bol # k) pre rest cs = (if pre = [] then matchFrames k pre rest cs else None)"
| "matchFrames (R Eol # k) pre rest cs = (if rest = [] then matchFrames k pre rest cs else None)"
| "matchFrames (R WordB # k) pre rest cs =
     (if atBoundary pre rest then matchFrames k pre rest cs else None)"
  by pat_completeness auto
termination
  by (relation "measures [\<lambda>(k, pre, rest, cs). sum_list (map fweight k),
                          \<lambda>(k, pre, rest, cs). length rest]") auto

text \<open>The search of \<^verbatim>\<open>exec\<close> without the g flag: the first start position, from the
  left, at which the pattern matches. The result is the text before the match (reversed) and
  the final state of the matcher.\<close>

fun regexSearch :: "regex \<Rightarrow> jsstring \<Rightarrow> jsstring \<Rightarrow> (jsstring \<times> mstate) option" where
  "regexSearch r pre [] =
     (case matchFrames [R r] pre [] [] of Some x \<Rightarrow> Some (pre, x) | None \<Rightarrow> None)"
| "regexSearch r pre (c # rest) =
     (case matchFrames [R r] pre (c # rest) [] of
        Some x \<Rightarrow> Some (pre, x)
      | None \<Rightarrow> regexSearch r (c # pre) rest)"

declare regexSearch.simps [simp del]

text \<open>The text of the whole match: what was consumed after the start.\<close>

definition wholeMatch :: "jsstring \<Rightarrow> jsstring \<Rightarrow> jsstring" where
  "wholeMatch before pre = rev (take (length pre - length before) pre)"

text \<open>\<^verbatim>\<open>t.match(re)\<close>: the captures, \<^verbatim>\<open>m[0]\<close> being the whole match, or \<open>None\<close> for
  null.\<close>

definition matchRe :: "regex \<Rightarrow> jsstring \<Rightarrow> caps option" where
  "matchRe r t =
     (case regexSearch r [] t of
        None \<Rightarrow> None
      | Some (before, pre, rest, cs) \<Rightarrow> Some ((0, wholeMatch before pre) # cs))"

text \<open>\<^verbatim>\<open>re.test(t)\<close>\<close>

definition regexTest :: "regex \<Rightarrow> jsstring \<Rightarrow> bool" where
  "regexTest r t = (case regexSearch r [] t of None \<Rightarrow> False | Some x \<Rightarrow> True)"

text \<open>\<^verbatim>\<open>m[i]\<close>: \<open>None\<close> is undefined (a group that took no part in the match).\<close>

definition grp :: "nat \<Rightarrow> caps \<Rightarrow> jsstring option" where
  "grp i cs = map_of cs i"

text \<open>\<^verbatim>\<open>t.replace(re, "")\<close> without the g flag: the first match is cut out.\<close>

definition removeFirst :: "regex \<Rightarrow> jsstring \<Rightarrow> jsstring" where
  "removeFirst r t =
     (case regexSearch r [] t of
        None \<Rightarrow> t
      | Some (before, pre, rest, cs) \<Rightarrow> rev before @ rest)"

text \<open>\<^verbatim>\<open>a ?? b\<close> on match results.\<close>

definition orElse :: "'a option \<Rightarrow> 'a option \<Rightarrow> 'a option" where
  "orElse a b = (case a of Some x \<Rightarrow> Some x | None \<Rightarrow> b)"

subsection \<open>Pattern notation\<close>

definition lit :: "string \<Rightarrow> regex" where
  "lit s = foldr (\<lambda>c r. Seq (Chr (\<lambda>x. x = of_char c)) r) s Eps"

text \<open>A literal under the i flag.\<close>

definition liti :: "string \<Rightarrow> regex" where
  "liti s = foldr (\<lambda>c r. Seq (Chr (\<lambda>x. canon x = canon (of_char c))) r) s Eps"

definition cat :: "regex list \<Rightarrow> regex" where
  "cat rs = foldr Seq rs Eps"

fun alts :: "regex list \<Rightarrow> regex" where
  "alts [] = Chr (\<lambda>c. False)"
| "alts [r] = r"
| "alts (r # rs) = Alt r (alts rs)"

definition opt :: "regex \<Rightarrow> regex" where
  "opt r = Alt r Eps"

text \<open>\<^verbatim>\<open>(?:r){0,3}\<close> for a pattern r that cannot match the empty string.\<close>

definition upTo3 :: "regex \<Rightarrow> regex" where
  "upTo3 r = opt (Seq r (opt (Seq r (opt r))))"

text \<open>Alternatives of literals under the i flag.\<close>

definition words :: "string list \<Rightarrow> regex" where
  "words ws = alts (map liti ws)"

text \<open>\<^verbatim>\<open>\s+\<close>, \<^verbatim>\<open>\s*\<close>, \<^verbatim>\<open>\d+\<close>, \<^verbatim>\<open>\S+\<close>, \<^verbatim>\<open>\d+(?:\.\d+)?\<close>\<close>

definition sp1 :: regex where
  "sp1 = Many isSpace 1"

definition sp0 :: regex where
  "sp0 = Many isSpace 0"

definition digits :: regex where
  "digits = Many isDigit 1"

definition nonsp1 :: regex where
  "nonsp1 = Many notSpace 1"

definition decimal :: regex where
  "decimal = Seq digits (opt (Seq (lit ''.'') digits))"

text \<open>\<^verbatim>\<open>ws?\<close> for a word w, and the apostrophe.\<close>

definition optS :: "string \<Rightarrow> regex" where
  "optS w = Seq (liti w) (opt (liti ''s''))"

definition apos :: regex where
  "apos = Chr (\<lambda>x. x = 39)"

section \<open>The patterns of extractFromText (src/lib/brain.ts)\<close>

subsection \<open>quantity\<close>

definition qtyNouns :: regex where
  "qtyNouns = words [''people'', ''employees'', ''recipients'', ''gifts'', ''units'']"

text \<open>\<^verbatim>\<open>/\bbetween\s+(\d+)\s+and\s+(\d+)\s*(?:people|employees|recipients|gifts|units)?/i\<close>\<close>

definition rangeQty1 :: regex where
  "rangeQty1 = cat [WordB, liti ''between'', sp1, Group 1 digits, sp1, liti ''and'', sp1,
                    Group 2 digits, sp0, opt qtyNouns]"

text \<open>\<^verbatim>\<open>/\b(\d+)\s+to\s+(\d+)\s*(?:people|employees|recipients|gifts|units)\b/i\<close>\<close>

definition rangeQty2 :: regex where
  "rangeQty2 = cat [WordB, Group 1 digits, sp1, liti ''to'', sp1, Group 2 digits, sp0, qtyNouns, WordB]"

text \<open>\<^verbatim>\<open>/\b(\d+)\s*-\s*(\d+)\s*(?:people|employees|recipients|gifts|units)\b/i\<close>\<close>

definition rangeQty3 :: regex where
  "rangeQty3 = cat [WordB, Group 1 digits, sp0, lit ''-'', sp0, Group 2 digits, sp0, qtyNouns, WordB]"

text \<open>\<^verbatim>\<open>(?:~|about|approx\.?|around)\<close>\<close>

definition approxQ :: regex where
  "approxQ = alts [lit ''~'', liti ''about'', Seq (liti ''approx'') (opt (lit ''.'')), liti ''around'']"

definition countNouns :: regex where
  "countNouns = words [''people'', ''employees'', ''recipients'', ''gifts'', ''units'', ''pcs'', ''items'']"

text \<open>\<^verbatim>\<open>/\b(\d+)\s+(?:(?:embroidered|custom)\s+)?(?:hoodies?|shirts?|t-?shirts?|jackets?|bags?|kits?|boxes?|gifts?|mugs?|bottles?|notebooks?|devices?|items?|units?|pieces?|pcs)\b/i\<close>\<close>

definition qtyPattern1 :: regex where
  "qtyPattern1 = cat [WordB, Group 1 digits, sp1,
     opt (Seq (words [''embroidered'', ''custom'']) sp1),
     alts [optS ''hoodie'', optS ''shirt'', cat [liti ''t'', opt (lit ''-''), optS ''shirt''],
           optS ''jacket'', optS ''bag'', optS ''kit'', optS ''boxe'', optS ''gift'', optS ''mug'',
           optS ''bottle'', optS ''notebook'', optS ''device'', optS ''item'', optS ''unit'',
           optS ''piece'', liti ''pcs''],
     WordB]"

text \<open>\<^verbatim>\<open>/\b(\d+)\s+(?:\w+\s+)?(?:people|employees|recipients|gifts|units|pcs|items)\b/i\<close>\<close>

definition qtyPattern2 :: regex where
  "qtyPattern2 = cat [WordB, Group 1 digits, sp1, opt (Seq (Many isWord 1) sp1), countNouns, WordB]"

text \<open>\<^verbatim>\<open>/(?:~|about|approx\.?|around)?\s*(\d+)\s*(?:people|employees|recipients|gifts|units|pcs|items)\b/i\<close>\<close>

definition qtyPattern3 :: regex where
  "qtyPattern3 = cat [opt approxQ, sp0, Group 1 digits, sp0, countNouns, WordB]"

text \<open>\<^verbatim>\<open>/\bfor\s+(?:~|about|approx\.?|around)?\s*(\d+)\s*(?:people|employees|recipients|guests)?\b/i\<close>\<close>

definition qtyPattern4 :: regex where
  "qtyPattern4 = cat [WordB, liti ''for'', sp1, opt approxQ, sp0, Group 1 digits, sp0,
     opt (words [''people'', ''employees'', ''recipients'', ''guests'']), WordB]"

text \<open>\<^verbatim>\<open>/\bsend(?:ing)?\s+(?:to\s+)?(?:~|about)?\s*(\d+)\b/i\<close>\<close>

definition qtyPattern5 :: regex where
  "qtyPattern5 = cat [WordB, liti ''send'', opt (liti ''ing''), sp1, opt (Seq (liti ''to'') sp1),
     opt (alts [lit ''~'', liti ''about'']), sp0, Group 1 digits, WordB]"

text \<open>\<^verbatim>\<open>/(?:~|about|approx\.?|around)?\s*(\d+)\s*(?:swag|kits?|boxes?|welcome\s+kits?|onboarding|new\s+hires?|new\s+employees?)\b/i\<close>\<close>

definition qtyPattern6 :: regex where
  "qtyPattern6 = cat [opt approxQ, sp0, Group 1 digits, sp0,
     alts [liti ''swag'', optS ''kit'', optS ''boxe'', cat [liti ''welcome'', sp1, optS ''kit''],
           liti ''onboarding'', cat [liti ''new'', sp1, optS ''hire''],
           cat [liti ''new'', sp1, optS ''employee'']],
     WordB]"

definition qtyPatterns :: "regex list" where
  "qtyPatterns = [qtyPattern1, qtyPattern2, qtyPattern3, qtyPattern4, qtyPattern5, qtyPattern6]"

text \<open>\<^verbatim>\<open>/^\s*(\d+)\b/\<close>\<close>

definition startMatchRe :: regex where
  "startMatchRe = cat [Bol, sp0, Group 1 digits, WordB]"

text \<open>\<^verbatim>\<open>/swag|kit|box|welcome|onboarding|new\s+hire|new\s+employee/i\<close>\<close>

definition swagContextRe :: regex where
  "swagContextRe = alts [liti ''swag'', liti ''kit'', liti ''box'', liti ''welcome'', liti ''onboarding'',
     cat [liti ''new'', sp1, liti ''hire''], cat [liti ''new'', sp1, liti ''employee'']]"

subsection \<open>budgetPerUnitUsd\<close>

text \<open>\<^verbatim>\<open>/\bbetween\s+(\d+(?:\.\d+)?)\s+and\s+(\d+(?:\.\d+)?)\s*(?:each|per\s|dollars?|USD?)\b/i\<close>\<close>

definition rangeBudget1 :: regex where
  "rangeBudget1 = cat [WordB, liti ''between'', sp1, Group 1 decimal, sp1, liti ''and'', sp1,
     Group 2 decimal, sp0,
     alts [liti ''each'', Seq (liti ''per'') (Chr isSpace), optS ''dollar'', Seq (liti ''US'') (opt (liti ''D''))],
     WordB]"

definition eachOrPer :: regex where
  "eachOrPer = alts [liti ''each'', Seq (liti ''per'') (Chr isSpace)]"

text \<open>\<^verbatim>\<open>/\$?(\d+(?:\.\d+)?)\s+to\s+\$?(\d+(?:\.\d+)?)\s*(?:each|per\s)/i\<close>\<close>

definition rangeBudget2 :: regex where
  "rangeBudget2 = cat [opt (lit ''$''), Group 1 decimal, sp1, liti ''to'', sp1, opt (lit ''$''),
     Group 2 decimal, sp0, eachOrPer]"

text \<open>\<^verbatim>\<open>/\$?(\d+(?:\.\d+)?)\s*-\s*\$?(\d+(?:\.\d+)?)\s*(?:each|per\s)/i\<close>\<close>

definition rangeBudget3 :: regex where
  "rangeBudget3 = cat [opt (lit ''$''), Group 1 decimal, sp0, lit ''-'', sp0, opt (lit ''$''),
     Group 2 decimal, sp0, eachOrPer]"

text \<open>\<^verbatim>\<open>(?:each|per\s+(?:person|employee|recipient|unit|head|item)|pp\b)\<close>\<close>

definition perUnit :: regex where
  "perUnit = alts [liti ''each'',
     cat [liti ''per'', sp1, words [''person'', ''employee'', ''recipient'', ''unit'', ''head'', ''item'']],
     Seq (liti ''pp'') WordB]"

text \<open>\<^verbatim>\<open>(?:around|about|~|approx\.?)\<close>\<close>

definition approxB :: regex where
  "approxB = alts [liti ''around'', liti ''about'', lit ''~'', Seq (liti ''approx'') (opt (lit ''.''))]"

text \<open>\<^verbatim>\<open>/\$(\d+(?:\.\d+)?)\s*(?:each|per\s+(?:person|employee|recipient|unit|head|item)|pp\b)/i\<close>\<close>

definition budgetPattern1 :: regex where
  "budgetPattern1 = cat [lit ''$'', Group 1 decimal, sp0, perUnit]"

text \<open>\<^verbatim>\<open>/(\d+(?:\.\d+)?)\s*(?:each|per\s+(?:person|employee|recipient|unit|head|item)|pp\b)/i\<close>\<close>

definition budgetPattern2 :: regex where
  "budgetPattern2 = cat [Group 1 decimal, sp0, perUnit]"

text \<open>\<^verbatim>\<open>/(?:under|<=?|less\s+than|max(?:imum)?|no\s+more\s+than)\s*\$?(\d+(?:\.\d+)?)/i\<close>\<close>

definition budgetPattern3 :: regex where
  "budgetPattern3 = cat [
     alts [liti ''under'', Seq (lit ''<'') (opt (lit ''='')), cat [liti ''less'', sp1, liti ''than''],
           Seq (liti ''max'') (opt (liti ''imum'')),
           cat [liti ''no'', sp1, liti ''more'', sp1, liti ''than'']],
     sp0, opt (lit ''$''), Group 1 decimal]"

text \<open>\<^verbatim>\<open>/(?:around|about|~|approx\.?)\s*\$?\s*(\d+(?:\.\d+)?)\s*(?:each|per\s+(?:gift|person|employee|recipient|unit)|dollars?)?/i\<close>\<close>

definition budgetPattern4 :: regex where
  "budgetPattern4 = cat [approxB, sp0, opt (lit ''$''), sp0, Group 1 decimal, sp0,
     opt (alts [liti ''each'',
                cat [liti ''per'', sp1, words [''gift'', ''person'', ''employee'', ''recipient'', ''unit'']],
                optS ''dollar''])]"

text \<open>\<^verbatim>\<open>/\b(?:around|about|~|approx\.?)\s*\$(\d+(?:\.\d+)?)\b/i\<close>\<close>

definition budgetPattern5 :: regex where
  "budgetPattern5 = cat [WordB, approxB, sp0, lit ''$'', Group 1 decimal, WordB]"

text \<open>\<^verbatim>\<open>/\$\s*(\d+(?:\.\d+)?)\s*$/i\<close>\<close>

definition budgetPattern6 :: regex where
  "budgetPattern6 = cat [lit ''$'', sp0, Group 1 decimal, sp0, Eol]"

text \<open>\<^verbatim>\<open>/\b(\d+(?:\.\d+)?)\s*\$/i\<close>\<close>

definition budgetPattern7 :: regex where
  "budgetPattern7 = cat [WordB, Group 1 decimal, sp0, lit ''$'']"

definition budgetPatterns :: "regex list" where
  "budgetPatterns = [budgetPattern1, budgetPattern2, budgetPattern3, budgetPattern4,
                     budgetPattern5, budgetPattern6, budgetPattern7]"

subsection \<open>shippingType\<close>

text \<open>\<^verbatim>\<open>/home\s+address(es)?|individual\s+address(es)?|ship\s+to\s+each|multiple\s+addresses/i\<close>\<close>

definition individualKw :: regex where
  "individualKw = alts [
     cat [liti ''home'', sp1, liti ''address'', opt (Group 1 (liti ''es''))],
     cat [liti ''individual'', sp1, liti ''address'', opt (Group 2 (liti ''es''))],
     cat [liti ''ship'', sp1, liti ''to'', sp1, liti ''each''],
     cat [liti ''multiple'', sp1, liti ''addresses'']]"

text \<open>\<^verbatim>\<open>/\bbulk\b|one\s+location|ship\s+to\s+(?:the\s+)?office|single\s+address|to\s+our\s+hq/i\<close>\<close>

definition bulkKw :: regex where
  "bulkKw = alts [
     cat [WordB, liti ''bulk'', WordB],
     cat [liti ''one'', sp1, liti ''location''],
     cat [liti ''ship'', sp1, liti ''to'', sp1, opt (Seq (liti ''the'') sp1), liti ''office''],
     cat [liti ''single'', sp1, liti ''address''],
     cat [liti ''to'', sp1, liti ''our'', sp1, liti ''hq'']]"

subsection \<open>branding\<close>

text \<open>\<^verbatim>\<open>don'?t\s+know\<close>\<close>

definition dontKnow :: regex where
  "dontKnow = cat [liti ''don'', opt apos, liti ''t'', sp1, liti ''know'']"

text \<open>\<^verbatim>\<open>/not\s+sure|don'?t\s+know|unsure|open\s+to|flexible|no\s+idea/i\<close>\<close>

definition uncertainRe :: regex where
  "uncertainRe = alts [cat [liti ''not'', sp1, liti ''sure''], dontKnow, liti ''unsure'',
     cat [liti ''open'', sp1, liti ''to''], liti ''flexible'', cat [liti ''no'', sp1, liti ''idea'']]"

text \<open>\<^verbatim>\<open>/brand|branding|logo|embroidery|engraving|custom/i\<close>\<close>

definition brandVocabRe :: regex where
  "brandVocabRe = words [''brand'', ''branding'', ''logo'', ''embroidery'', ''engraving'', ''custom'']"

text \<open>\<^verbatim>\<open>/\bembroid(?:er(?:ed)?|ery)\b/i\<close>\<close>

definition embroideryRe :: regex where
  "embroideryRe = cat [WordB, liti ''embroid'',
     alts [Seq (liti ''er'') (opt (liti ''ed'')), liti ''ery''], WordB]"

text \<open>\<^verbatim>\<open>/laser|engrav(?:e|ing)/i\<close>\<close>

definition laserRe :: regex where
  "laserRe = alts [liti ''laser'', Seq (liti ''engrav'') (alts [liti ''e'', liti ''ing''])]"

text \<open>\<^verbatim>\<open>/\binsert\b|note\s+card|message\s+card/i\<close>\<close>

definition insertRe :: regex where
  "insertRe = alts [cat [WordB, liti ''insert'', WordB], cat [liti ''note'', sp1, liti ''card''],
     cat [liti ''message'', sp1, liti ''card'']]"

text \<open>\<^verbatim>\<open>/sticker|label/i\<close>\<close>

definition stickerRe :: regex where
  "stickerRe = words [''sticker'', ''label'']"

text \<open>\<^verbatim>\<open>/no\s+branding|no\s+logo|unbranded/i\<close>\<close>

definition noBrandingRe :: regex where
  "noBrandingRe = alts [cat [liti ''no'', sp1, liti ''branding''], cat [liti ''no'', sp1, liti ''logo''],
     liti ''unbranded'']"

subsection \<open>distributionTiming and addressHandling\<close>

text \<open>\<^verbatim>\<open>/\b(?:not\s+sure|don'?t\s+know|unsure|no\s+idea|no\s+clue|idk|skip)\b/i\<close>\<close>

definition unsurePhraseRe :: regex where
  "unsurePhraseRe = cat [WordB,
     alts [cat [liti ''not'', sp1, liti ''sure''], dontKnow, liti ''unsure'',
           cat [liti ''no'', sp1, liti ''idea''], cat [liti ''no'', sp1, liti ''clue''],
           liti ''idk'', liti ''skip''],
     WordB]"

text \<open>\<^verbatim>\<open>/\b(?:all\s+at\s+once|delivered\s+at\s+once|one\s+delivery|single\s+delivery|all\s+at\s+one\s+time)\b/i\<close>\<close>

definition allAtOnceRe :: regex where
  "allAtOnceRe = cat [WordB,
     alts [cat [liti ''all'', sp1, liti ''at'', sp1, liti ''once''],
           cat [liti ''delivered'', sp1, liti ''at'', sp1, liti ''once''],
           cat [liti ''one'', sp1, liti ''delivery''],
           cat [liti ''single'', sp1, liti ''delivery''],
           cat [liti ''all'', sp1, liti ''at'', sp1, liti ''one'', sp1, liti ''time'']],
     WordB]"

text \<open>\<^verbatim>\<open>/\b(?:over\s+time|stored\s+and\s+distribut|stored\s+later|distribut(?:e|ed)\s+later|store\s+and\s+distribut)\b/i\<close>\<close>

definition overTimeRe :: regex where
  "overTimeRe = cat [WordB,
     alts [cat [liti ''over'', sp1, liti ''time''],
           cat [liti ''stored'', sp1, liti ''and'', sp1, liti ''distribut''],
           cat [liti ''stored'', sp1, liti ''later''],
           cat [liti ''distribut'', alts [liti ''e'', liti ''ed''], sp1, liti ''later''],
           cat [liti ''store'', sp1, liti ''and'', sp1, liti ''distribut'']],
     WordB]"

text \<open>\<^verbatim>\<open>/\b(?:we\s+(?:will|'ll|provide)|we\s+have|i(?:'ll| will)\s+provide|provided\s+by\s+us|our\s+addresses|provide\s+the\s+addresses)\b/i\<close>\<close>

definition providedRe :: regex where
  "providedRe = cat [WordB,
     alts [cat [liti ''we'', sp1, alts [liti ''will'', Seq apos (liti ''ll''), liti ''provide'']],
           cat [liti ''we'', sp1, liti ''have''],
           cat [liti ''i'', alts [Seq apos (liti ''ll''), liti '' will''], sp1, liti ''provide''],
           cat [liti ''provided'', sp1, liti ''by'', sp1, liti ''us''],
           cat [liti ''our'', sp1, liti ''addresses''],
           cat [liti ''provide'', sp1, liti ''the'', sp1, liti ''addresses'']],
     WordB]"

text \<open>\<^verbatim>\<open>/\b(?:you\s+(?:handle|collect)|handle\s+collection|handle\s+distribut|you\s+collect|handled\s+by\s+(?:you|us))\b/i\<close>\<close>

definition handledRe :: regex where
  "handledRe = cat [WordB,
     alts [cat [liti ''you'', sp1, words [''handle'', ''collect'']],
           cat [liti ''handle'', sp1, liti ''collection''],
           cat [liti ''handle'', sp1, liti ''distribut''],
           cat [liti ''you'', sp1, liti ''collect''],
           cat [liti ''handled'', sp1, liti ''by'', sp1, words [''you'', ''us'']]],
     WordB]"

subsection \<open>international\<close>

text \<open>\<^verbatim>\<open>\s*[\.\!]?\s*$\<close>\<close>

definition bareTail :: regex where
  "bareTail = cat [sp0, opt (Chr (oneOf ''.!'')), sp0, Eol]"

text \<open>\<^verbatim>\<open>/^\s*(yes|yeah|yep|yup|sure|correct|we do|we have)\s*[\.\!]?\s*$/i\<close>\<close>

definition bareYesRe :: regex where
  "bareYesRe = cat [Bol, sp0,
     Group 1 (words [''yes'', ''yeah'', ''yep'', ''yup'', ''sure'', ''correct'', ''we do'', ''we have'']),
     bareTail]"

text \<open>\<^verbatim>\<open>/^\s*(no|nope|nah|negative|we don't|we do not|us only|domestic only)\s*[\.\!]?\s*$/i\<close>\<close>

definition bareNoRe :: regex where
  "bareNoRe = cat [Bol, sp0,
     Group 1 (alts [liti ''no'', liti ''nope'', liti ''nah'', liti ''negative'',
                    cat [liti ''we don'', apos, liti ''t''], liti ''we do not'', liti ''us only'',
                    liti ''domestic only'']),
     bareTail]"

text \<open>\<^verbatim>\<open>/\b(us only|domestic only|no international|across the us|within the us|in the us|domestic)\b/i\<close>\<close>

definition noInternationalRe :: regex where
  "noInternationalRe = cat [WordB,
     Group 1 (words [''us only'', ''domestic only'', ''no international'', ''across the us'',
                     ''within the us'', ''in the us'', ''domestic'']),
     WordB]"

text \<open>\<^verbatim>\<open>/international|outside\s+(?:the\s+)?us|canada|united\s+kingdom|\buk\b|\beu\b|europe|asia/i\<close>\<close>

definition internationalKwRe :: regex where
  "internationalKwRe = alts [liti ''international'',
     cat [liti ''outside'', sp1, opt (Seq (liti ''the'') sp1), liti ''us''],
     liti ''canada'', cat [liti ''united'', sp1, liti ''kingdom''],
     cat [WordB, liti ''uk'', WordB], cat [WordB, liti ''eu'', WordB], liti ''europe'', liti ''asia'']"

subsection \<open>email, phone, deadlineText\<close>

text \<open>\<^verbatim>\<open>/[a-zA-Z0-9._%+\-]+@[a-zA-Z0-9.\-]+\.[a-zA-Z]{2,}/\<close>\<close>

definition emailLocal :: "nat \<Rightarrow> bool" where
  "emailLocal c = (isAlpha c \<or> isDigit c \<or> oneOf ''._%+-'' c)"

definition emailDomain :: "nat \<Rightarrow> bool" where
  "emailDomain c = (isAlpha c \<or> isDigit c \<or> oneOf ''.-'' c)"

definition emailRe :: regex where
  "emailRe = cat [Many emailLocal 1, lit ''@'', Many emailDomain 1, lit ''.'', Many isAlpha 2]"

text \<open>\<^verbatim>\<open>/(?:\+?\d[\d\s\-\.\(\)]{8,}\d|\b\d{10,}\b)/\<close>\<close>

definition phoneMid :: "nat \<Rightarrow> bool" where
  "phoneMid c = (isDigit c \<or> isSpace c \<or> oneOf ''-.()'' c)"

definition phoneRe :: regex where
  "phoneRe = alts [cat [opt (lit ''+''), Chr isDigit, Many phoneMid 8, Chr isDigit],
                   cat [WordB, Many isDigit 10, WordB]]"

text \<open>\<^verbatim>\<open>\S+(?:\s+\S+){0,3}\<close>\<close>

definition fewWords :: regex where
  "fewWords = Seq nonsp1 (upTo3 (Seq sp1 nonsp1))"

text \<open>
  \<^verbatim>\<open>/\b(by\s+(?:end\s+of\s+)?\S+(?:\s+\S+){0,3})/i\<close>,
  \<^verbatim>\<open>/\b(before\s+\S+(?:\s+\S+){0,3})/i\<close>,
  \<^verbatim>\<open>/\b(need(?:ed)?\s+(?:by|before|in)\s+\S+(?:\s+\S+){0,3})/i\<close>,
  \<^verbatim>\<open>/\b(deadline(?:\s+is)?\s+\S+(?:\s+\S+){0,3})/i\<close>,
  \<^verbatim>\<open>/\b(in\s+\d+\s+(?:week|month|day)s?)\b/i\<close>,
  \<^verbatim>\<open>/\b(mid-?[A-Z][a-z]+)/\<close>,
  \<^verbatim>\<open>/\b(ASAP)\b/i\<close>,
  \<^verbatim>\<open>/\b(urgent(?:ly)?)\b/i\<close>
\<close>

definition deadlinePattern1 :: regex where
  "deadlinePattern1 = Seq WordB (Group 1 (cat [liti ''by'', sp1,
     opt (cat [liti ''end'', sp1, liti ''of'', sp1]), fewWords]))"

definition deadlinePattern2 :: regex where
  "deadlinePattern2 = Seq WordB (Group 1 (cat [liti ''before'', sp1, fewWords]))"

definition deadlinePattern3 :: regex where
  "deadlinePattern3 = Seq WordB (Group 1 (cat [liti ''need'', opt (liti ''ed''), sp1,
     words [''by'', ''before'', ''in''], sp1, fewWords]))"

definition deadlinePattern4 :: regex where
  "deadlinePattern4 = Seq WordB (Group 1 (cat [liti ''deadline'', opt (Seq sp1 (liti ''is'')), sp1, fewWords]))"

definition deadlinePattern5 :: regex where
  "deadlinePattern5 = cat [WordB, Group 1 (cat [liti ''in'', sp1, digits, sp1,
     words [''week'', ''month'', ''day''], opt (liti ''s'')]), WordB]"

definition deadlinePattern6 :: regex where
  "deadlinePattern6 = Seq WordB (Group 1 (cat [lit ''mid'', opt (lit ''-''), Chr isUpper, Many isLower 1]))"

definition deadlinePattern7 :: regex where
  "deadlinePattern7 = cat [WordB, Group 1 (liti ''ASAP''), WordB]"

definition deadlinePattern8 :: regex where
  "deadlinePattern8 = cat [WordB, Group 1 (Seq (liti ''urgent'') (opt (liti ''ly''))), WordB]"

definition deadlinePatterns :: "regex list" where
  "deadlinePatterns = [deadlinePattern1, deadlinePattern2, deadlinePattern3, deadlinePattern4,
                       deadlinePattern5, deadlinePattern6, deadlinePattern7, deadlinePattern8]"

section \<open>The data model (src/lib/types.ts)\<close>

datatype ShippingType = Individual | Bulk | UnknownShipping

datatype BrandingType = Embroidery | Laser | Insert | Sticker | NoBranding | UnknownBranding

datatype DistributionTiming = AllAtOnce | OverTime | UnknownTiming

datatype AddressHandling = Provided | HandledByUs | UnknownHandling

datatype ComplexityMode = Streamlined | Assisted | HighTouch

text \<open>
  Every field of ChatState is optional: \<open>None\<close> is undefined. The last field is the
  property \<^verbatim>\<open>__brandingNeedsQualification\<close> that extractFromText attaches to the object;
  the program only ever tests it with \<^verbatim>\<open>=== true\<close> and only ever assigns true to it, so it is
  a boolean here: whether the property is true.
\<close>

record ChatState =
  quantity :: "number option"
  budgetPerUnitUsd :: "number option"
  shippingType :: "ShippingType option"
  branding :: "BrandingType option"
  international :: "bool option"
  email :: "jsstring option"
  phone :: "jsstring option"
  deadlineText :: "jsstring option"
  distributionTiming :: "DistributionTiming option"
  addressHandling :: "AddressHandling option"
  brandingNeedsQualification :: bool

definition emptyState :: ChatState where
  "emptyState = \<lparr>quantity = None, budgetPerUnitUsd = None, shippingType = None, branding = None,
     international = None, email = None, phone = None, deadlineText = None,
     distributionTiming = None, addressHandling = None, brandingNeedsQualification = False\<rparr>"

record ComplexityResult =
  score :: int
  mode :: ComplexityMode
  reasons :: "string list"

section \<open>extractFromText (src/lib/brain.ts)\<close>

text \<open>The loop over a list of patterns that stops at the first match whose capture 1
  parses to a positive number; a match with a number that is not positive goes on to the
  next pattern.\<close>

fun firstPositive :: "(jsstring option \<Rightarrow> number) \<Rightarrow> regex list \<Rightarrow> jsstring \<Rightarrow> number option" where
  "firstPositive parse [] t = None"
| "firstPositive parse (re # res) t =
     (case matchRe re t of
        None \<Rightarrow> firstPositive parse res t
      | Some m \<Rightarrow>
          if positive (parse (grp 1 m)) then Some (parse (grp 1 m)) else firstPositive parse res t)"

definition rangeQty :: "jsstring \<Rightarrow> caps option" where
  "rangeQty t = orElse (matchRe rangeQty1 t) (orElse (matchRe rangeQty2 t) (matchRe rangeQty3 t))"

text \<open>\<^verbatim>\<open>Math.round((a + b) / 2)\<close>\<close>

definition midpoint :: "number \<Rightarrow> number \<Rightarrow> number" where
  "midpoint a b = mathRound (ddiv (dadd a b) (Fin 2))"

text \<open>The value the range block assigns to quantity, if it assigns one.\<close>

definition rangeQtyValue :: "jsstring \<Rightarrow> number option" where
  "rangeQtyValue t =
     (case rangeQty t of
        None \<Rightarrow> None
      | Some m \<Rightarrow>
          if positive (parseInt10 (grp 1 m)) \<and> positive (parseInt10 (grp 2 m))
          then Some (midpoint (parseInt10 (grp 1 m)) (parseInt10 (grp 2 m))) else None)"

text \<open>The fallback: a number at the beginning and swag context anywhere.\<close>

definition startQtyValue :: "jsstring \<Rightarrow> number option" where
  "startQtyValue t =
     (case matchRe startMatchRe t of
        None \<Rightarrow> None
      | Some m \<Rightarrow>
          if regexTest swagContextRe t \<and> positive (parseInt10 (grp 1 m))
          then Some (parseInt10 (grp 1 m)) else None)"

definition setQuantity :: "number option \<Rightarrow> ChatState \<Rightarrow> ChatState" where
  "setQuantity v st = (case v of None \<Rightarrow> st | Some n \<Rightarrow> st\<lparr>quantity := Some n\<rparr>)"

definition extractQuantity :: "jsstring \<Rightarrow> ChatState \<Rightarrow> ChatState" where
  "extractQuantity t st =
     (let next1 = setQuantity (rangeQtyValue t) st;
          next2 = (if quantity next1 = None
                   then setQuantity (firstPositive parseInt10 qtyPatterns t) next1 else next1)
      in if quantity next2 = None then setQuantity (startQtyValue t) next2 else next2)"

definition rangeBudget :: "jsstring \<Rightarrow> caps option" where
  "rangeBudget t =
     orElse (matchRe rangeBudget1 t) (orElse (matchRe rangeBudget2 t) (matchRe rangeBudget3 t))"

text \<open>\<^verbatim>\<open>Math.round(((a + b) / 2) * 100) / 100\<close>\<close>

definition midpointCents :: "number \<Rightarrow> number \<Rightarrow> number" where
  "midpointCents a b = ddiv (mathRound (dmul (ddiv (dadd a b) (Fin 2)) (Fin 100))) (Fin 100)"

definition rangeBudgetValue :: "jsstring \<Rightarrow> number option" where
  "rangeBudgetValue t =
     (case rangeBudget t of
        None \<Rightarrow> None
      | Some m \<Rightarrow>
          if positive (parseFloat (grp 1 m)) \<and> positive (parseFloat (grp 2 m))
          then Some (midpointCents (parseFloat (grp 1 m)) (parseFloat (grp 2 m))) else None)"

definition setBudget :: "number option \<Rightarrow> ChatState \<Rightarrow> ChatState" where
  "setBudget v st = (case v of None \<Rightarrow> st | Some n \<Rightarrow> st\<lparr>budgetPerUnitUsd := Some n\<rparr>)"

definition extractBudget :: "jsstring \<Rightarrow> ChatState \<Rightarrow> ChatState" where
  "extractBudget t st =
     (let next1 = setBudget (rangeBudgetValue t) st
      in if budgetPerUnitUsd next1 = None
         then setBudget (firstPositive parseFloat budgetPatterns t) next1 else next1)"

definition extractShippingType :: "jsstring \<Rightarrow> ChatState \<Rightarrow> ChatState" where
  "extractShippingType t st =
     (if regexTest individualKw t then st\<lparr>shippingType := Some Individual\<rparr>
      else if regexTest bulkKw t then st\<lparr>shippingType := Some Bulk\<rparr>
      else st)"

definition uncertainBranding :: "jsstring \<Rightarrow> bool" where
  "uncertainBranding t = (regexTest uncertainRe t \<and> regexTest brandVocabRe t)"

definition brandingRules :: "(BrandingType \<times> regex) list" where
  "brandingRules = [(Embroidery, embroideryRe), (Laser, laserRe), (Insert, insertRe),
                    (Sticker, stickerRe), (NoBranding, noBrandingRe)]"

fun firstRule :: "(BrandingType \<times> regex) list \<Rightarrow> jsstring \<Rightarrow> BrandingType option" where
  "firstRule [] t = None"
| "firstRule ((ty, re) # rules) t = (if regexTest re t then Some ty else firstRule rules t)"

definition extractBranding :: "jsstring \<Rightarrow> ChatState \<Rightarrow> ChatState" where
  "extractBranding t st =
     (if uncertainBranding t then st\<lparr>branding := None, brandingNeedsQualification := True\<rparr>
      else (case firstRule brandingRules t of
              None \<Rightarrow> st
            | Some ty \<Rightarrow> st\<lparr>branding := Some ty\<rparr>))"

definition unsurePhrase :: "jsstring \<Rightarrow> bool" where
  "unsurePhrase t = regexTest unsurePhraseRe t"

definition extractDistributionTiming :: "jsstring \<Rightarrow> ChatState \<Rightarrow> ChatState" where
  "extractDistributionTiming t st =
     (if shippingType st = Some Bulk \<and> distributionTiming st = None then
        (if unsurePhrase t \<and> length t < 60 then st\<lparr>distributionTiming := Some UnknownTiming\<rparr>
         else if regexTest allAtOnceRe t then st\<lparr>distributionTiming := Some AllAtOnce\<rparr>
         else if regexTest overTimeRe t then st\<lparr>distributionTiming := Some OverTime\<rparr>
         else st)
      else st)"

definition extractAddressHandling :: "jsstring \<Rightarrow> ChatState \<Rightarrow> ChatState" where
  "extractAddressHandling t st =
     (if shippingType st = Some Individual \<and> addressHandling st = None then
        (if unsurePhrase t \<and> length t < 60 then st\<lparr>addressHandling := Some UnknownHandling\<rparr>
         else if regexTest providedRe t then st\<lparr>addressHandling := Some Provided\<rparr>
         else if regexTest handledRe t then st\<lparr>addressHandling := Some HandledByUs\<rparr>
         else st)
      else st)"

definition extractInternational :: "jsstring \<Rightarrow> ChatState \<Rightarrow> ChatState" where
  "extractInternational t st =
     (if regexTest bareYesRe t then st\<lparr>international := Some True\<rparr>
      else if regexTest bareNoRe t \<or> regexTest noInternationalRe t then st\<lparr>international := Some False\<rparr>
      else if regexTest internationalKwRe t then st\<lparr>international := Some True\<rparr>
      else st)"

definition extractEmail :: "jsstring \<Rightarrow> ChatState \<Rightarrow> ChatState" where
  "extractEmail t st =
     (case matchRe emailRe t of
        None \<Rightarrow> st
      | Some m \<Rightarrow> (case grp 0 m of None \<Rightarrow> st | Some whole \<Rightarrow> st\<lparr>email := Some (toLowerCase whole)\<rparr>))"

text \<open>\<^verbatim>\<open>phoneMatch[0].replace(/\D/g, "")\<close> keeps the digits.\<close>

definition extractPhone :: "jsstring \<Rightarrow> ChatState \<Rightarrow> ChatState" where
  "extractPhone t st =
     (case matchRe phoneRe t of
        None \<Rightarrow> st
      | Some m \<Rightarrow>
          (case grp 0 m of
             None \<Rightarrow> st
           | Some whole \<Rightarrow>
               if 10 \<le> length (filter isDigit whole) then st\<lparr>phone := Some (jsTrim whole)\<rparr> else st))"

text \<open>The first deadline pattern that matches: \<^verbatim>\<open>(m[1] ?? m[0]).trim()\<close>.\<close>

fun firstDeadline :: "regex list \<Rightarrow> jsstring \<Rightarrow> jsstring option" where
  "firstDeadline [] t = None"
| "firstDeadline (re # res) t =
     (case matchRe re t of
        None \<Rightarrow> firstDeadline res t
      | Some m \<Rightarrow> map_option jsTrim (orElse (grp 1 m) (grp 0 m)))"

definition extractDeadlineText :: "jsstring \<Rightarrow> ChatState \<Rightarrow> ChatState" where
  "extractDeadlineText t st =
     (case firstDeadline deadlinePatterns t of
        None \<Rightarrow> st
      | Some d \<Rightarrow> st\<lparr>deadlineText := Some d\<rparr>)"

text \<open>The blocks run in the order of the source, each on the state the one before left.\<close>

definition extractFromText :: "jsstring \<Rightarrow> ChatState \<Rightarrow> ChatState" where
  "extractFromText text prevState =
     (let t = jsTrim text in
      extractDeadlineText t (extractPhone t (extractEmail t (extractInternational t
        (extractAddressHandling t (extractDistributionTiming t (extractBranding t
          (extractShippingType t (extractBudget t (extractQuantity t prevState))))))))))"

section \<open>computeComplexity (src/lib/brain.ts)\<close>

text \<open>
  \<^verbatim>\<open>/\basap\b/\<close>, \<^verbatim>\<open>/\burgent/\<close>, \<^verbatim>\<open>/\brush\b/\<close>, \<^verbatim>\<open>/\bimmediately\b/\<close>,
  \<^verbatim>\<open>/\bin\s+(\d+)\s+weeks?\b/\<close>, \<^verbatim>\<open>/\bin\s+(\d+)\s+days?\b/\<close>
\<close>

definition asapRe :: regex where
  "asapRe = cat [WordB, lit ''asap'', WordB]"

definition urgentRe :: regex where
  "urgentRe = Seq WordB (lit ''urgent'')"

definition rushRe :: regex where
  "rushRe = cat [WordB, lit ''rush'', WordB]"

definition immediatelyRe :: regex where
  "immediatelyRe = cat [WordB, lit ''immediately'', WordB]"

definition weeksRe :: regex where
  "weeksRe = cat [WordB, lit ''in'', sp1, Group 1 digits, sp1, lit ''week'', opt (lit ''s''), WordB]"

definition daysRe :: regex where
  "daysRe = cat [WordB, lit ''in'', sp1, Group 1 digits, sp1, lit ''day'', opt (lit ''s''), WordB]"

text \<open>\<^verbatim>\<open>m && parseInt(m[1], 10) <= bound\<close>\<close>

definition atMost :: "regex \<Rightarrow> rat \<Rightarrow> jsstring \<Rightarrow> bool" where
  "atMost re bound t =
     (case matchRe re t of
        None \<Rightarrow> False
      | Some m \<Rightarrow> le (parseInt10 (grp 1 m)) (Fin bound))"

definition isTightDeadline :: "jsstring \<Rightarrow> bool" where
  "isTightDeadline deadline =
     (let t = toLowerCase deadline in
      if regexTest asapRe t then True
      else if regexTest urgentRe t then True
      else if regexTest rushRe t then True
      else if regexTest immediatelyRe t then True
      else if atMost weeksRe 2 t then True
      else if atMost daysRe 14 t then True
      else False)"

text \<open>One scoring rule: when it fires, the score grows and the reason is pushed.\<close>

definition scoreRule :: "bool \<Rightarrow> int \<Rightarrow> string \<Rightarrow> int \<times> string list \<Rightarrow> int \<times> string list" where
  "scoreRule fires delta reason acc = (if fires then (fst acc + delta, snd acc @ [reason]) else acc)"

definition tightDeadline :: "ChatState \<Rightarrow> bool" where
  "tightDeadline st = (case deadlineText st of None \<Rightarrow> False | Some d \<Rightarrow> isTightDeadline d)"

definition largeQuantity :: "ChatState \<Rightarrow> bool" where
  "largeQuantity st = (case quantity st of None \<Rightarrow> False | Some q \<Rightarrow> gt q (Fin 200))"

definition rawScore :: "ChatState \<Rightarrow> int \<times> string list" where
  "rawScore st =
     scoreRule (brandingNeedsQualification st) 1 ''Branding needs clarification''
      (scoreRule (tightDeadline st) 1 ''Tight deadline''
       (scoreRule (international st = Some True) 2 ''International shipping''
        (scoreRule (largeQuantity st) 1 ''Large quantity''
         (scoreRule (branding st = Some Laser \<or> branding st = Some Embroidery) 1
            ''High-touch branding (laser/embroidery)''
          (scoreRule (addressHandling st = Some HandledByUs) 1
             ''Address collection and distribution handled by us''
           (scoreRule (distributionTiming st = Some OverTime) 1 ''Storage and distribution over time''
            (scoreRule (shippingType st = Some Individual) 2 ''Individual shipping''
             (scoreRule (budgetPerUnitUsd st = None) 1 ''Budget not provided'' (1, [])))))))))"

definition modeOfScore :: "int \<Rightarrow> ComplexityMode" where
  "modeOfScore sc = (if sc \<le> 2 then Streamlined else if sc \<le> 4 then Assisted else HighTouch)"

definition computeComplexity :: "ChatState \<Rightarrow> ComplexityResult" where
  "computeComplexity st =
     (let raw = rawScore st;
          sc = min 5 (max 1 (fst raw))
      in \<lparr>score = sc,
          mode = (if brandingNeedsQualification st then Assisted else modeOfScore sc),
          reasons = snd raw\<rparr>)"

section \<open>nextMissing (src/lib/brain.ts)\<close>

definition pushIf :: "bool \<Rightarrow> string \<Rightarrow> string list \<Rightarrow> string list" where
  "pushIf c key missing = (if c then missing @ [key] else missing)"

definition nextMissing :: "ChatState \<Rightarrow> string list" where
  "nextMissing st =
     pushIf (email st = None \<and> phone st = None) ''email''
      (pushIf (shippingType st = Some Individual \<and> addressHandling st = None) ''addressHandling''
       (pushIf (shippingType st = Some Bulk \<and> distributionTiming st = None) ''distributionTiming''
        (pushIf (shippingType st = Some Individual \<and> international st = None) ''international''
         (pushIf (branding st = None) ''branding''
          (pushIf (shippingType st = None) ''shippingType''
           (pushIf (deadlineText st = None) ''deadlineText''
            (pushIf (budgetPerUnitUsd st = None) ''budgetPerUnitUsd''
             (pushIf (quantity st = None) ''quantity'' []))))))))"

section \<open>suggestBundles (src/lib/bundles.ts)\<close>

text \<open>
  The fields \<^verbatim>\<open>id\<close> and \<^verbatim>\<open>notes\<close> of the source are \<open>bundleId\<close> and \<open>bundleNotes\<close> here.
  The numbers of a bundle are finite doubles, kept as the rationals they are; \<open>Fin\<close> makes
  them numbers where they meet the numbers of the state.
\<close>

record Bundle =
  bundleId :: string
  name :: string
  unitPrice :: rat
  leadTimeDays :: rat
  minQty :: rat
  maxQty :: rat
  eligibleShipping :: "ShippingType list"
  eligibleBranding :: "BrandingType list"
  bundleNotes :: string

definition BUNDLES :: "Bundle list" where
  "BUNDLES = [
     \<lparr>bundleId = ''snack-box'', name = ''Snack Box'', unitPrice = 18, leadTimeDays = 5,
      minQty = 25, maxQty = 500,
      eligibleShipping = [Bulk, Individual, UnknownShipping],
      eligibleBranding = [NoBranding, Sticker, Insert, UnknownBranding],
      bundleNotes = ''Curated snacks, insert or sticker. Low complexity, fast ship.''\<rparr>,
     \<lparr>bundleId = ''notebook-pen'', name = ''Notebook + Pen'', unitPrice = 22, leadTimeDays = 7,
      minQty = 50, maxQty = 1000,
      eligibleShipping = [Bulk, Individual, UnknownShipping],
      eligibleBranding = [NoBranding, Sticker, Insert, Laser, UnknownBranding],
      bundleNotes = ''Laser engraving optional on pen or notebook cover.''\<rparr>,
     \<lparr>bundleId = ''coffee-kit'', name = ''Coffee Kit'', unitPrice = 28, leadTimeDays = 5,
      minQty = 30, maxQty = 400,
      eligibleShipping = [Bulk, Individual, UnknownShipping],
      eligibleBranding = [NoBranding, Sticker, Insert, UnknownBranding],
      bundleNotes = ''Mug or tumbler, coffee samples. Sticker or insert.''\<rparr>,
     \<lparr>bundleId = ''throw-blanket'', name = ''Cozy Throw Blanket'', unitPrice = 35, leadTimeDays = 10,
      minQty = 25, maxQty = 200,
      eligibleShipping = [Bulk, Individual, UnknownShipping],
      eligibleBranding = [NoBranding, Insert, UnknownBranding],
      bundleNotes = ''Premium throw with optional note card insert.''\<rparr>,
     \<lparr>bundleId = ''wellness-tea-kit'', name = ''Wellness / Tea Kit'', unitPrice = 24, leadTimeDays = 6,
      minQty = 25, maxQty = 350,
      eligibleShipping = [Bulk, Individual, UnknownShipping],
      eligibleBranding = [NoBranding, Sticker, Insert, UnknownBranding],
      bundleNotes = ''Tea, honey stick, tin. Insert or sticker.''\<rparr>]"

text \<open>SuggestedBundle of the source: name, unitPrice, leadTimeDays and the optional why.\<close>

record SuggestedBundle =
  sugName :: string
  sugUnitPrice :: rat
  sugLeadTimeDays :: rat
  why :: "string option"

text \<open>The filter callback of suggestBundles.\<close>

definition eligible :: "number \<Rightarrow> number \<Rightarrow> ShippingType \<Rightarrow> BrandingType \<Rightarrow> Bundle \<Rightarrow> bool" where
  "eligible qty maxUnitPrice shipping brand b =
     (if gt (Fin (unitPrice b)) maxUnitPrice then False
      else if lt qty (Fin (minQty b)) \<or> gt qty (Fin (maxQty b)) then False
      else if shipping \<notin> set (eligibleShipping b) then False
      else if brand \<notin> set (eligibleBranding b) then False
      else True)"

text \<open>The comparator: negative when a goes before b. The difference of two finite doubles
  rounds to a double of the same sign (it is zero only when they are equal), and the sort
  reads the sign only, so the difference is left exact.\<close>

definition compareBundles :: "Bundle \<Rightarrow> Bundle \<Rightarrow> rat" where
  "compareBundles a b =
     (if leadTimeDays a \<noteq> leadTimeDays b then leadTimeDays a - leadTimeDays b
      else unitPrice b - unitPrice a)"

text \<open>\<^verbatim>\<open>Array.prototype.sort\<close> with a comparator is a stable sort: here, insertion of each
  element, from the last to the first, before the first element it does not come after.\<close>

fun insertBy :: "('a \<Rightarrow> 'a \<Rightarrow> rat) \<Rightarrow> 'a \<Rightarrow> 'a list \<Rightarrow> 'a list" where
  "insertBy cmp x [] = [x]"
| "insertBy cmp x (y # ys) = (if cmp x y \<le> 0 then x # y # ys else y # insertBy cmp x ys)"

definition sortBy :: "('a \<Rightarrow> 'a \<Rightarrow> rat) \<Rightarrow> 'a list \<Rightarrow> 'a list" where
  "sortBy cmp xs = foldr (insertBy cmp) xs []"

definition suggestion :: "Bundle \<Rightarrow> SuggestedBundle" where
  "suggestion b = \<lparr>sugName = name b, sugUnitPrice = unitPrice b, sugLeadTimeDays = leadTimeDays b,
     why = (if leadTimeDays b \<le> 6 then Some ''Fast turnaround'' else None)\<rparr>"

definition orUnknownShipping :: "ShippingType option \<Rightarrow> ShippingType" where
  "orUnknownShipping v = (case v of None \<Rightarrow> UnknownShipping | Some x \<Rightarrow> x)"

definition orUnknownBranding :: "BrandingType option \<Rightarrow> BrandingType" where
  "orUnknownBranding v = (case v of None \<Rightarrow> UnknownBranding | Some x \<Rightarrow> x)"

definition suggestBundles :: "ChatState \<Rightarrow> SuggestedBundle list" where
  "suggestBundles st =
     (case quantity st of
        None \<Rightarrow> []
      | Some qty \<Rightarrow>
          (case budgetPerUnitUsd st of
             None \<Rightarrow> []
           | Some budget \<Rightarrow>
               map suggestion (take 3 (sortBy compareBundles
                 (filter (eligible qty (dmul budget (Fin (3 / 4))) (orUnknownShipping (shippingType st))
                            (orUnknownBranding (branding st))) BUNDLES)))))"

section \<open>The turn handler POST (the chat route)\<close>

text \<open>\<^verbatim>\<open>(?:don't|do\s+not)\<close>\<close>

definition doNot :: regex where
  "doNot = alts [cat [liti ''don'', apos, liti ''t''], cat [liti ''do'', sp1, liti ''not'']]"

text \<open>\<^verbatim>\<open>/^(?:i\s+)?(?:don't|do\s+not)\s+know|^(?:i'?m|i\s+am)\s+not\s+sure|^no\s+idea|^not\s+sure|^unsure|^no\s+clue|^skip(?:\s+this)?|^maybe\s+later|^later|^pass|^dunno|^idk$|^rather\s+not\s+say/i\<close>\<close>

definition UNSURE_PATTERN :: regex where
  "UNSURE_PATTERN = alts [
     cat [Bol, opt (Seq (liti ''i'') sp1), doNot, sp1, liti ''know''],
     cat [Bol, alts [cat [liti ''i'', opt apos, liti ''m''], cat [liti ''i'', sp1, liti ''am'']],
          sp1, liti ''not'', sp1, liti ''sure''],
     cat [Bol, liti ''no'', sp1, liti ''idea''],
     cat [Bol, liti ''not'', sp1, liti ''sure''],
     cat [Bol, liti ''unsure''],
     cat [Bol, liti ''no'', sp1, liti ''clue''],
     cat [Bol, liti ''skip'', opt (Seq sp1 (liti ''this''))],
     cat [Bol, liti ''maybe'', sp1, liti ''later''],
     cat [Bol, liti ''later''],
     cat [Bol, liti ''pass''],
     cat [Bol, liti ''dunno''],
     cat [Bol, liti ''idk'', Eol],
     cat [Bol, liti ''rather'', sp1, liti ''not'', sp1, liti ''say'']]"

text \<open>\<^verbatim>\<open>/^(?:i\s+)?(?:don't|do\s+not)\s+have\s+(?:a\s+)?(?:clue|idea)/i\<close>\<close>

definition unsureHaveRe :: regex where
  "unsureHaveRe = cat [Bol, opt (Seq (liti ''i'') sp1), doNot, sp1, liti ''have'', sp1,
     opt (Seq (liti ''a'') sp1), words [''clue'', ''idea'']]"

text \<open>\<^verbatim>\<open>/\s*[.!?]+$/\<close>\<close>

definition trailingPunctRe :: regex where
  "trailingPunctRe = cat [sp0, Many (oneOf ''.!?'') 1, Eol]"

definition isUnsurePhrase :: "jsstring \<Rightarrow> bool" where
  "isUnsurePhrase message =
     (let t = removeFirst trailingPunctRe (jsTrim message) in
      if t = [] then False else regexTest UNSURE_PATTERN t \<or> regexTest unsureHaveRe t)"

text \<open>\<^verbatim>\<open>/^\s*\$?(\d+(?:\.\d+)?)\s*$/\<close>\<close>

definition numericMatchRe :: regex where
  "numericMatchRe = cat [Bol, sp0, opt (lit ''$''), Group 1 decimal, sp0, Eol]"

text \<open>
  \<^verbatim>\<open>/^\s*between\s+(\d+(?:\.\d+)?)\s+and\s+(\d+(?:\.\d+)?)\s*$/i\<close>,
  \<^verbatim>\<open>/^\s*(\d+(?:\.\d+)?)\s+to\s+(\d+(?:\.\d+)?)\s*$/i\<close>,
  \<^verbatim>\<open>/^\s*(\d+(?:\.\d+)?)\s*-\s*(\d+(?:\.\d+)?)\s*$/\<close>
\<close>

definition rangeMatchRe1 :: regex where
  "rangeMatchRe1 = cat [Bol, sp0, liti ''between'', sp1, Group 1 decimal, sp1, liti ''and'', sp1,
     Group 2 decimal, sp0, Eol]"

definition rangeMatchRe2 :: regex where
  "rangeMatchRe2 = cat [Bol, sp0, Group 1 decimal, sp1, liti ''to'', sp1, Group 2 decimal, sp0, Eol]"

definition rangeMatchRe3 :: regex where
  "rangeMatchRe3 = cat [Bol, sp0, Group 1 decimal, sp0, lit ''-'', sp0, Group 2 decimal, sp0, Eol]"

definition rangeMatch :: "jsstring \<Rightarrow> caps option" where
  "rangeMatch trimmed =
     orElse (matchRe rangeMatchRe1 trimmed)
       (orElse (matchRe rangeMatchRe2 trimmed) (matchRe rangeMatchRe3 trimmed))"

text \<open>The midpoint of a bare range: \<^verbatim>\<open>Math.round((a + b) / 2 * 100) / 100\<close>, or NaN.\<close>

definition rangeMid :: "caps \<Rightarrow> number" where
  "rangeMid m =
     (if positive (parseFloat (grp 1 m)) \<and> positive (parseFloat (grp 2 m))
      then midpointCents (parseFloat (grp 1 m)) (parseFloat (grp 2 m)) else NaN)"

text \<open>Step 2 of POST: the state after the message, \<^verbatim>\<open>state1\<close> before step 5b.\<close>

definition applyMessage :: "jsstring \<Rightarrow> ChatState \<Rightarrow> ChatState" where
  "applyMessage message st =
     (let trimmed = jsTrim message in
      if isUnsurePhrase trimmed then st
      else
        (case rangeMatch trimmed of
           Some m \<Rightarrow>
             if rangeMid m \<noteq> NaN then
               (if quantity st = None \<and> budgetPerUnitUsd st = None
                  then st\<lparr>quantity := Some (mathRound (rangeMid m))\<rparr>
                else if quantity st \<noteq> None \<and> budgetPerUnitUsd st = None
                  then st\<lparr>budgetPerUnitUsd := Some (rangeMid m)\<rparr>
                else extractFromText message st)
             else extractFromText message st
         | None \<Rightarrow>
             (case matchRe numericMatchRe trimmed of
                Some m \<Rightarrow>
                  if positive (parseFloat (grp 1 m)) then
                    (if quantity st = None \<and> budgetPerUnitUsd st = None
                       then st\<lparr>quantity := Some (parseFloat (grp 1 m))\<rparr>
                     else if quantity st \<noteq> None \<and> budgetPerUnitUsd st = None
                       then st\<lparr>budgetPerUnitUsd := Some (parseFloat (grp 1 m))\<rparr>
                     else extractFromText message st)
                  else extractFromText message st
              | None \<Rightarrow> extractFromText message st)))"

text \<open>\<^verbatim>\<open>missingNonEmail.length > 0 ? missingNonEmail[0] : null\<close>\<close>

definition firstNonEmail :: "string list \<Rightarrow> string option" where
  "firstNonEmail missing =
     (case filter (\<lambda>f. f \<noteq> ''email'') missing of [] \<Rightarrow> None | f # _ \<Rightarrow> Some f)"

text \<open>Step 5 of POST: the choice of nextField.\<close>

definition selectNextField :: "ComplexityMode \<Rightarrow> ChatState \<Rightarrow> string list \<Rightarrow> string option" where
  "selectNextField md st missing =
     (let nextField = firstNonEmail missing in
      if nextField = None \<and> md \<noteq> Streamlined \<and> email st = None \<and> phone st = None
         \<and> ''email'' \<in> set missing
      then Some ''email'' else nextField)"

text \<open>Step 5b of POST: the choice of nextField after a default was applied.\<close>

definition reselectNextField :: "string list \<Rightarrow> string option" where
  "reselectNextField missing =
     (case firstNonEmail missing of
        Some f \<Rightarrow> Some f
      | None \<Rightarrow> if ''email'' \<in> set missing then Some ''email'' else None)"

text \<open>\<^verbatim>\<open>skipValue\<close> merged into the state; \<open>None\<close> when skipValue has no key.\<close>

definition skipDefault :: "string \<Rightarrow> ChatState \<Rightarrow> ChatState option" where
  "skipDefault nextField st =
     (if nextField = ''branding'' then Some (st\<lparr>branding := Some NoBranding\<rparr>)
      else if nextField = ''international'' then Some (st\<lparr>international := Some False\<rparr>)
      else None)"

definition bundlesFor :: "ComplexityMode \<Rightarrow> string list \<Rightarrow> ChatState \<Rightarrow> (string \<times> rat \<times> rat) list" where
  "bundlesFor md missing st =
     (if md = Streamlined \<and> (missing = [] \<or> missing = [''email''])
      then map (\<lambda>b. (sugName b, sugUnitPrice b, sugLeadTimeDays b)) (suggestBundles st)
      else [])"

text \<open>
  The deterministic part of one turn: the local variables of POST when the response is
  assembled. Every path of the response assembly returns \<open>state\<close> as the state of the
  response, the mode and the score of \<open>complexity\<close>, and \<open>missing\<close>; \<open>nextField\<close> selects
  the question. The message generation, the validation of the response shape and the lead
  store are outside this model.
\<close>

record Turn =
  state :: ChatState
  complexity :: ComplexityResult
  missing :: "string list"
  nextField :: "string option"
  deterministicBundles :: "(string \<times> rat \<times> rat) list"

definition POST :: "jsstring \<Rightarrow> ChatState \<Rightarrow> Turn" where
  "POST message st0 =
     (let userSaidUnsure = isUnsurePhrase (jsTrim message);
          state1 = applyMessage message st0;
          cx = computeComplexity state1;
          missing1 = nextMissing state1;
          nextField1 = selectNextField (mode cx) state1 missing1;
          skipped = (if userSaidUnsure
                     then (case nextField1 of None \<Rightarrow> None | Some f \<Rightarrow> skipDefault f state1)
                     else None)
      in case skipped of
           None \<Rightarrow>
             \<lparr>state = state1, complexity = cx, missing = missing1, nextField = nextField1,
              deterministicBundles = bundlesFor (mode cx) missing1 state1\<rparr>
         | Some state2 \<Rightarrow>
             \<lparr>state = state2, complexity = cx, missing = nextMissing state2,
              nextField = reselectNextField (nextMissing state2),
              deterministicBundles = bundlesFor (mode cx) (nextMissing state2) state2\<rparr>)"

section \<open>Notions used by the theorems\<close>

text \<open>The order that compareBundles decides: ascending lead time, ties by descending
  unit price.\<close>

definition bundleOrder :: "Bundle \<Rightarrow> Bundle \<Rightarrow> bool" where
  "bundleOrder a b = (leadTimeDays a < leadTimeDays b \<or>
                      (leadTimeDays a = leadTimeDays b \<and> unitPrice b \<le> unitPrice a))"

text \<open>A decimal numeral as the bare-number pattern reads it: digits, then optionally a
  point and digits.\<close>

definition decimalNumeral :: "jsstring \<Rightarrow> bool" where
  "decimalNumeral s =
     (case dropWhile isDigit s of
        [] \<Rightarrow> s \<noteq> []
      | c # fs \<Rightarrow> takeWhile isDigit s \<noteq> [] \<and> c = 46 \<and> fs \<noteq> [] \<and> list_all isDigit fs)"

text \<open>Scenario D of the test harness.\<close>

definition scenarioD :: jsstring where
  "scenarioD = js ''250 embroidered hoodies, ship to individual addresses in US and Canada, you handle collection and distribution, need them in 2 weeks.''"

text \<open>A bulk order that only lacks branding and a contact: quantity, budget, deadline,
  shipping and distribution timing are known.\<close>

definition bulkOrder :: ChatState where
  "bulkOrder = emptyState\<lparr>quantity := Some (Fin 40), budgetPerUnitUsd := Some (Fin 45),
     shippingType := Some Bulk, deadlineText := Some (js ''mid-December''),
     distributionTiming := Some AllAtOnce\<rparr>"

text \<open>An order of 50 units whose budget, the double nearest to 29.333333333333332, is a
  little below 88 / 3.\<close>

definition marginOrder :: ChatState where
  "marginOrder = emptyState\<lparr>quantity := Some (Fin 50),
     budgetPerUnitUsd := Some (parseFloat (Some (js ''29.333333333333332'')))\<rparr>"

section \<open>Evaluating the matcher on a given text\<close>

text \<open>
  The matcher is evaluated by rewriting. The congruence rules below keep the rewriter from
  walking through the text and the frames at every step (they are in normal form already),
  and the patterns are unfolded only when they reach the head of the frame list.
\<close>

lemma matchFrames_blocked: "matchFrames k pre rest cs = matchFrames k pre rest cs"
  by (rule refl)

lemma regexSearch_blocked: "regexSearch r pre rest = regexSearch r pre rest"
  by (rule refl)

lemma atBoundary_blocked: "atBoundary pre rest = atBoundary pre rest"
  by (rule refl)

lemma wordBefore_blocked: "wordBefore s = wordBefore s"
  by (rule refl)

lemma wordBefore_simps: "wordBefore [] = False" "wordBefore (c # s) = isWord c"
  by (simp_all add: wordBefore_def)

lemma frame_unfold: "r = r' \<Longrightarrow> matchFrames (R r # k) pre rest cs = matchFrames (R r' # k) pre rest cs"
  by simp

lemma cat_simps: "cat [] = Eps" "cat (r # rs) = Seq r (cat rs)"
  by (simp_all add: cat_def)

lemma liti_simps: "liti [] = Eps" "liti (c # s) = Seq (Chr (\<lambda>x. canon x = canon (of_char c))) (liti s)"
  by (simp_all add: liti_def)

lemma lit_simps: "lit [] = Eps" "lit (c # s) = Seq (Chr (\<lambda>x. x = of_char c)) (lit s)"
  by (simp_all add: lit_def)

lemma words_simps: "words [] = alts []" "words [w] = liti w" "words (w # v # ws) = Alt (liti w) (words (v # ws))"
  by (simp_all add: words_def)

lemmas rx_steps =
  frame_unfold [OF cat_simps(1)] frame_unfold [OF cat_simps(2)]
  frame_unfold [OF liti_simps(1)] frame_unfold [OF liti_simps(2)]
  frame_unfold [OF lit_simps(1)] frame_unfold [OF lit_simps(2)]
  frame_unfold [OF words_simps(1)] frame_unfold [OF words_simps(2)] frame_unfold [OF words_simps(3)]
  frame_unfold [OF alts.simps(1)] frame_unfold [OF alts.simps(2)] frame_unfold [OF alts.simps(3)]
  frame_unfold [OF opt_def] frame_unfold [OF upTo3_def] frame_unfold [OF optS_def]
  atBoundary_def wordBefore_simps
  oneOf_def isSpace_def isDigit_def isUpper_def isLower_def isAlpha_def isWord_def notSpace_def canon_def
  emailLocal_def emailDomain_def phoneMid_def
  matchRe_def regexTest_def grp_def orElse_def wholeMatch_def js_def regexSearch.simps

lemmas rx_patterns =
  frame_unfold [OF sp1_def] frame_unfold [OF sp0_def] frame_unfold [OF digits_def]
  frame_unfold [OF nonsp1_def] frame_unfold [OF decimal_def] frame_unfold [OF apos_def]
  frame_unfold [OF qtyNouns_def] frame_unfold [OF rangeQty1_def] frame_unfold [OF rangeQty2_def]
  frame_unfold [OF rangeQty3_def] frame_unfold [OF approxQ_def] frame_unfold [OF countNouns_def]
  frame_unfold [OF qtyPattern1_def] frame_unfold [OF qtyPattern2_def]
  frame_unfold [OF qtyPattern3_def] frame_unfold [OF qtyPattern4_def]
  frame_unfold [OF qtyPattern5_def] frame_unfold [OF qtyPattern6_def]
  frame_unfold [OF startMatchRe_def] frame_unfold [OF swagContextRe_def]
  frame_unfold [OF rangeBudget1_def] frame_unfold [OF eachOrPer_def]
  frame_unfold [OF rangeBudget2_def] frame_unfold [OF rangeBudget3_def]
  frame_unfold [OF perUnit_def] frame_unfold [OF approxB_def] frame_unfold [OF budgetPattern1_def]
  frame_unfold [OF budgetPattern2_def] frame_unfold [OF budgetPattern3_def]
  frame_unfold [OF budgetPattern4_def] frame_unfold [OF budgetPattern5_def]
  frame_unfold [OF budgetPattern6_def] frame_unfold [OF budgetPattern7_def]
  frame_unfold [OF individualKw_def] frame_unfold [OF bulkKw_def] frame_unfold [OF dontKnow_def]
  frame_unfold [OF uncertainRe_def] frame_unfold [OF brandVocabRe_def]
  frame_unfold [OF embroideryRe_def] frame_unfold [OF laserRe_def] frame_unfold [OF insertRe_def]
  frame_unfold [OF stickerRe_def] frame_unfold [OF noBrandingRe_def]
  frame_unfold [OF unsurePhraseRe_def] frame_unfold [OF allAtOnceRe_def]
  frame_unfold [OF overTimeRe_def] frame_unfold [OF providedRe_def] frame_unfold [OF handledRe_def]
  frame_unfold [OF bareTail_def] frame_unfold [OF bareYesRe_def] frame_unfold [OF bareNoRe_def]
  frame_unfold [OF noInternationalRe_def] frame_unfold [OF internationalKwRe_def]
  frame_unfold [OF emailRe_def] frame_unfold [OF phoneRe_def] frame_unfold [OF fewWords_def]
  frame_unfold [OF deadlinePattern1_def] frame_unfold [OF deadlinePattern2_def]
  frame_unfold [OF deadlinePattern3_def] frame_unfold [OF deadlinePattern4_def]
  frame_unfold [OF deadlinePattern5_def] frame_unfold [OF deadlinePattern6_def]
  frame_unfold [OF deadlinePattern7_def] frame_unfold [OF deadlinePattern8_def]
  frame_unfold [OF asapRe_def] frame_unfold [OF urgentRe_def] frame_unfold [OF rushRe_def]
  frame_unfold [OF immediatelyRe_def] frame_unfold [OF weeksRe_def] frame_unfold [OF daysRe_def]
  frame_unfold [OF doNot_def] frame_unfold [OF UNSURE_PATTERN_def]
  frame_unfold [OF unsureHaveRe_def] frame_unfold [OF trailingPunctRe_def]
  frame_unfold [OF numericMatchRe_def] frame_unfold [OF rangeMatchRe1_def]
  frame_unfold [OF rangeMatchRe2_def] frame_unfold [OF rangeMatchRe3_def]

lemmas rx_blocked = matchFrames_blocked regexSearch_blocked atBoundary_blocked wordBefore_blocked

section \<open>The patterns on the texts of the examples\<close>

lemma scenarioD_units:
  "jsTrim scenarioD = [50, 53, 48, 32, 101, 109, 98, 114, 111, 105, 100, 101, 114, 101, 100, 32,
  104, 111, 111, 100, 105, 101, 115, 44, 32, 115, 104, 105, 112, 32, 116,
  111, 32, 105, 110, 100, 105, 118, 105, 100, 117, 97, 108, 32, 97, 100,
  100, 114, 101, 115, 115, 101, 115, 32, 105, 110, 32, 85, 83, 32, 97, 110,
  100, 32, 67, 97, 110, 97, 100, 97, 44, 32, 121, 111, 117, 32, 104, 97,
  110, 100, 108, 101, 32, 99, 111, 108, 108, 101, 99, 116, 105, 111, 110,
  32, 97, 110, 100, 32, 100, 105, 115, 116, 114, 105, 98, 117, 116, 105,
  111, 110, 44, 32, 110, 101, 101, 100, 32, 116, 104, 101, 109, 32, 105,
  110, 32, 50, 32, 119, 101, 101, 107, 115, 46]"
  by (simp add: scenarioD_def js_def jsTrim_def isSpace_def)


lemma D_rangeQty: "rangeQty (jsTrim scenarioD) = None"
  by (simp add: rangeQty_def scenarioD_units rx_steps rx_patterns cong: rx_blocked)

lemma D_qtyPattern1:
  "matchRe qtyPattern1 (jsTrim scenarioD) = Some [(0, js ''250 embroidered hoodies''), (1, js ''250'')]"
  by (simp add: scenarioD_units rx_steps rx_patterns cong: rx_blocked)

lemma D_rangeBudget: "rangeBudget (jsTrim scenarioD) = None"
  by (simp add: rangeBudget_def scenarioD_units rx_steps rx_patterns cong: rx_blocked)

lemma D_budgetPattern1: "matchRe budgetPattern1 (jsTrim scenarioD) = None"
  by (simp add: scenarioD_units rx_steps rx_patterns cong: rx_blocked)

lemma D_budgetPattern2: "matchRe budgetPattern2 (jsTrim scenarioD) = None"
  by (simp add: scenarioD_units rx_steps rx_patterns cong: rx_blocked)

lemma D_budgetPattern3: "matchRe budgetPattern3 (jsTrim scenarioD) = None"
  by (simp add: scenarioD_units rx_steps rx_patterns cong: rx_blocked)

lemma D_budgetPattern4: "matchRe budgetPattern4 (jsTrim scenarioD) = None"
  by (simp add: scenarioD_units rx_steps rx_patterns cong: rx_blocked)

lemma D_budgetPattern5: "matchRe budgetPattern5 (jsTrim scenarioD) = None"
  by (simp add: scenarioD_units rx_steps rx_patterns cong: rx_blocked)

lemma D_budgetPattern6: "matchRe budgetPattern6 (jsTrim scenarioD) = None"
  by (simp add: scenarioD_units rx_steps rx_patterns cong: rx_blocked)

lemma D_budgetPattern7: "matchRe budgetPattern7 (jsTrim scenarioD) = None"
  by (simp add: scenarioD_units rx_steps rx_patterns cong: rx_blocked)

lemma D_individualKw: "regexTest individualKw (jsTrim scenarioD)"
  by (simp add: scenarioD_units rx_steps rx_patterns cong: rx_blocked)

lemma D_uncertainRe: "\<not> regexTest uncertainRe (jsTrim scenarioD)"
  by (simp add: scenarioD_units rx_steps rx_patterns cong: rx_blocked)

lemma D_embroideryRe: "regexTest embroideryRe (jsTrim scenarioD)"
  by (simp add: scenarioD_units rx_steps rx_patterns cong: rx_blocked)

lemma D_unsurePhraseRe: "\<not> regexTest unsurePhraseRe (jsTrim scenarioD)"
  by (simp add: scenarioD_units rx_steps rx_patterns cong: rx_blocked)

lemma D_providedRe: "\<not> regexTest providedRe (jsTrim scenarioD)"
  by (simp add: scenarioD_units rx_steps rx_patterns cong: rx_blocked)

lemma D_handledRe: "regexTest handledRe (jsTrim scenarioD)"
  by (simp add: scenarioD_units rx_steps rx_patterns cong: rx_blocked)

lemma D_bareYesRe: "\<not> regexTest bareYesRe (jsTrim scenarioD)"
  by (simp add: scenarioD_units rx_steps rx_patterns cong: rx_blocked)

lemma D_bareNoRe: "\<not> regexTest bareNoRe (jsTrim scenarioD)"
  by (simp add: scenarioD_units rx_steps rx_patterns cong: rx_blocked)

lemma D_noInternationalRe: "\<not> regexTest noInternationalRe (jsTrim scenarioD)"
  by (simp add: scenarioD_units rx_steps rx_patterns cong: rx_blocked)

lemma D_internationalKwRe: "regexTest internationalKwRe (jsTrim scenarioD)"
  by (simp add: scenarioD_units rx_steps rx_patterns cong: rx_blocked)

lemma D_emailRe: "matchRe emailRe (jsTrim scenarioD) = None"
  by (simp add: scenarioD_units rx_steps rx_patterns cong: rx_blocked)

lemma D_phoneRe: "matchRe phoneRe (jsTrim scenarioD) = None"
  by (simp add: scenarioD_units rx_steps rx_patterns cong: rx_blocked)

lemma D_deadlinePattern1: "matchRe deadlinePattern1 (jsTrim scenarioD) = None"
  by (simp add: scenarioD_units rx_steps rx_patterns cong: rx_blocked)

lemma D_deadlinePattern2: "matchRe deadlinePattern2 (jsTrim scenarioD) = None"
  by (simp add: scenarioD_units rx_steps rx_patterns cong: rx_blocked)

lemma D_deadlinePattern3: "matchRe deadlinePattern3 (jsTrim scenarioD) = None"
  by (simp add: scenarioD_units rx_steps rx_patterns cong: rx_blocked)

lemma D_deadlinePattern4: "matchRe deadlinePattern4 (jsTrim scenarioD) = None"
  by (simp add: scenarioD_units rx_steps rx_patterns cong: rx_blocked)

lemma D_deadlinePattern5:
  "matchRe deadlinePattern5 (jsTrim scenarioD) = Some [(0, js ''in 2 weeks''), (1, js ''in 2 weeks'')]"
  by (simp add: scenarioD_units rx_steps rx_patterns cong: rx_blocked)


lemma floor_rat_numeral: "\<lfloor>(numeral a :: rat) / numeral b\<rfloor> = numeral a div numeral b"
  using floor_divide_of_int_eq [of "numeral a" "numeral b", where ?'a = rat] by simp

lemma ceiling_rat_numeral: "\<lceil>(numeral a :: rat) / numeral b\<rceil> = - ((- numeral a) div numeral b)"
  using ceiling_divide_eq_div [of "numeral a" "numeral b", where ?'a = rat] by simp

lemmas num_eval = roundDouble_def roundAt_def finite64_def roundHalfEven_def ilog2_def pow2_def
  bitLength.simps floor_rat_numeral ceiling_rat_numeral

lemmas num_ops = dadd_def dmul_def ddiv_def mathRound_def midpoint_def midpointCents_def
  positive_def gt_def ge_def negative_def

lemmas parse_defs = parseInt10_def parseFloat_def js_def dropSign_def signOf_def decValue_def
  isSpace_def isDigit_def Let_def

lemma round_small:
  "roundDouble 2 = Fin 2" "roundDouble 25 = Fin 25" "roundDouble 30 = Fin 30"
  "roundDouble 35 = Fin 35" "roundDouble 45 = Fin 45" "roundDouble 50 = Fin 50"
  "roundDouble 250 = Fin 250" "roundDouble (5 / 2) = Fin (5 / 2)"
  by (simp_all add: num_eval)

lemma parse_250: "parseInt10 (Some (js ''250'')) = Fin 250"
proof -
  have "parseInt10 (Some (js ''250'')) = roundDouble 250"
    by (simp add: parse_defs)
  then show ?thesis by (simp only: round_small)
qed

lemma trim_in_2_weeks: "jsTrim (js ''in 2 weeks'') = js ''in 2 weeks''"
  by (simp add: jsTrim_def js_def isSpace_def)

lemma parse_exact:
  "parseInt10 (Some (js ''0'')) = roundDouble 0" "parseInt10 (Some (js ''2'')) = roundDouble 2"
  "parseInt10 (Some (js ''30'')) = roundDouble 30" "parseInt10 (Some (js ''50'')) = roundDouble 50"
  "parseFloat (Some (js ''25'')) = roundDouble 25" "parseFloat (Some (js ''35'')) = roundDouble 35"
  "parseFloat (Some (js ''45'')) = roundDouble 45" "parseFloat (Some (js ''2.5'')) = roundDouble (5 / 2)"
  by (simp_all add: parse_defs)

lemma round_zero: "roundDouble 0 = Fin 0"
  by (simp add: roundDouble_def)

lemma parse_small:
  "parseInt10 (Some (js ''0'')) = Fin 0" "parseInt10 (Some (js ''2'')) = Fin 2"
  "parseInt10 (Some (js ''30'')) = Fin 30" "parseInt10 (Some (js ''50'')) = Fin 50"
  "parseFloat (Some (js ''25'')) = Fin 25" "parseFloat (Some (js ''35'')) = Fin 35"
  "parseFloat (Some (js ''45'')) = Fin 45"
  by (simp_all only: parse_exact round_small round_zero)

text \<open>The decimals 25.49 and 17.74 are no doubles: parseFloat gives the nearest ones.\<close>

lemma parse_decimals:
  "parseFloat (Some (js ''10'')) = Fin 10"
  "parseFloat (Some (js ''25.49'')) = Fin (7174797156354621 / 281474976710656)"
  "parseFloat (Some (js ''17.74'')) = Fin (4993366086847037 / 281474976710656)"
proof -
  have "parseFloat (Some (js ''10'')) = roundDouble 10"
    by (simp add: parse_defs)
  then show "parseFloat (Some (js ''10'')) = Fin 10"
    by (simp add: num_eval)
  have "parseFloat (Some (js ''25.49'')) = roundDouble (2549 / 100)"
    by (simp add: parse_defs)
  then show "parseFloat (Some (js ''25.49'')) = Fin (7174797156354621 / 281474976710656)"
    by (simp add: num_eval)
  have "parseFloat (Some (js ''17.74'')) = roundDouble (1774 / 100)"
    by (simp add: parse_defs)
  then show "parseFloat (Some (js ''17.74'')) = Fin (4993366086847037 / 281474976710656)"
    by (simp add: num_eval)
qed

text \<open>\<^verbatim>\<open>parseInt\<close> of an integer above \<open>2 ^ 53\<close> gives the nearest double.\<close>

lemma parseInt10_beyond_53_bits:
  "parseInt10 (Some (js ''9007199254740993'')) = Fin 9007199254740992"
proof -
  have "parseInt10 (Some (js ''9007199254740993'')) = roundDouble 9007199254740993"
    by (simp add: parse_defs)
  then show ?thesis by (simp add: num_eval)
qed

lemma midpoint_30_50: "mathRound (ddiv (dadd (Fin 30) (Fin 50)) (Fin 2)) = Fin 40"
  by (simp add: num_ops num_eval)

lemma midpoint_0_50: "mathRound (ddiv (dadd (Fin 0) (Fin 50)) (Fin 2)) = Fin 25"
  by (simp add: num_ops num_eval)

lemma midpointCents_25_35:
  "ddiv (mathRound (dmul (ddiv (dadd (Fin 25) (Fin 35)) (Fin 2)) (Fin 100))) (Fin 100) = Fin 30"
  by (simp add: num_ops num_eval)

text \<open>The midpoint of 10 and 25.49 in cents: the sum is 35.489999999999995, its half times
  100 is 1774.4999999999998, which rounds to 1774.\<close>

lemma midpointCents_10_2549:
  "ddiv (mathRound (dmul (ddiv (dadd (Fin 10) (Fin (7174797156354621 / 281474976710656))) (Fin 2))
     (Fin 100))) (Fin 100) = Fin (4993366086847037 / 281474976710656)"
proof -
  have "dadd (Fin 10) (Fin (7174797156354621 / 281474976710656)) = Fin (2497386730865295 / 70368744177664)"
    by (simp add: num_ops num_eval)
  moreover have "ddiv (Fin (2497386730865295 / 70368744177664)) (Fin 2) = Fin (2497386730865295 / 140737488355328)"
    by (simp add: num_ops num_eval)
  moreover have "dmul (Fin (2497386730865295 / 140737488355328)) (Fin 100) = Fin (7804333533954047 / 4398046511104)"
    by (simp add: num_ops num_eval)
  moreover have "mathRound (Fin (7804333533954047 / 4398046511104)) = Fin 1774"
    by (simp add: num_ops floor_rat_numeral)
  moreover have "ddiv (Fin 1774) (Fin 100) = Fin (4993366086847037 / 281474976710656)"
    by (simp add: num_ops num_eval)
  ultimately show ?thesis by simp
qed

lemma W_notsure_uncertain: "regexTest uncertainRe (jsTrim (js ''not sure about the logo''))"
  by (simp add: jsTrim_def rx_steps rx_patterns cong: rx_blocked)

lemma W_notsure_vocab: "regexTest brandVocabRe (jsTrim (js ''not sure about the logo''))"
  by (simp add: jsTrim_def rx_steps rx_patterns cong: rx_blocked)

lemma idk_unsure: "isUnsurePhrase (jsTrim (js ''I don't know''))"
  by (simp add: isUnsurePhrase_def Let_def removeFirst_def jsTrim_def rx_steps rx_patterns
      cong: rx_blocked)

lemma W_range_30_50:
  "rangeQty (jsTrim (js ''between 30 and 50 recipients'')) =
     Some [(0, js ''between 30 and 50 recipients''), (2, js ''50''), (1, js ''30'')]"
  by (simp add: rangeQty_def jsTrim_def rx_steps rx_patterns cong: rx_blocked)

lemma W_range_0_50:
  "rangeQty (jsTrim (js ''between 0 and 50 people'')) =
     Some [(0, js ''between 0 and 50 people''), (2, js ''50''), (1, js ''0'')]"
  by (simp add: rangeQty_def jsTrim_def rx_steps rx_patterns cong: rx_blocked)

lemma W_range_50_people: "rangeQty (jsTrim (js ''50 people'')) = None"
  by (simp add: rangeQty_def jsTrim_def rx_steps rx_patterns cong: rx_blocked)

lemma W_budget_25_35:
  "rangeBudget (jsTrim (js ''between 25 and 35 each'')) =
     Some [(0, js ''between 25 and 35 each''), (2, js ''35''), (1, js ''25'')]"
  by (simp add: rangeBudget_def jsTrim_def rx_steps rx_patterns cong: rx_blocked)

lemma W_budget_45_each: "rangeBudget (jsTrim (js ''$45 each'')) = None"
  by (simp add: rangeBudget_def jsTrim_def rx_steps rx_patterns cong: rx_blocked)

lemma W_range_0_5:
  "rangeQty (jsTrim (js ''between 0 and 5 or 30 to 50 people'')) =
     Some [(0, js ''between 0 and 5 ''), (2, js ''5''), (1, js ''0'')]"
  by (simp add: rangeQty_def jsTrim_def rx_steps rx_patterns cong: rx_blocked)

lemma W_budget_10_2549:
  "rangeBudget (jsTrim (js ''$10 - $25.49 per person'')) =
     Some [(0, js ''$10 - $25.49 per ''), (2, js ''25.49''), (1, js ''10'')]"
  by (simp add: rangeBudget_def jsTrim_def rx_steps rx_patterns cong: rx_blocked)

lemma W_mid_december: "\<not> isTightDeadline (js ''mid-December'')"
  by (simp add: isTightDeadline_def Let_def toLowerCase_def lowerUnit_def atMost_def
      rx_steps rx_patterns cong: rx_blocked)

lemma W_bare_unsure: "\<not> isUnsurePhrase (jsTrim (js ''2.5''))"
  by (simp add: isUnsurePhrase_def Let_def removeFirst_def jsTrim_def rx_steps rx_patterns
      cong: rx_blocked)

lemma W_bare_range: "rangeMatch (jsTrim (js ''2.5'')) = None"
  by (simp add: rangeMatch_def jsTrim_def rx_steps rx_patterns cong: rx_blocked)

lemma W_bare_numeric:
  "matchRe numericMatchRe (jsTrim (js ''2.5'')) = Some [(0, js ''2.5''), (1, js ''2.5'')]"
  by (simp add: jsTrim_def rx_steps rx_patterns cong: rx_blocked)

lemma W_parse_bare: "parseFloat (Some (js ''2.5'')) = Fin (5 / 2)"
  by (simp only: parse_exact round_small)

section \<open>The complexity score and the missing fields\<close>

text \<open>
  Claim C1. For every ChatState, computeComplexity returns an integer score between 1 and
  5, and the mode is the band of the clamped score (1-2 streamlined, 3-4 assisted, 5
  high_touch), except that the mode is assisted whenever the brandingNeedsQualification
  flag is true, whatever the band.
\<close>

theorem computeComplexity_score_mode:
  "1 \<le> score (computeComplexity st) \<and> score (computeComplexity st) \<le> 5 \<and>
   mode (computeComplexity st) =
     (if brandingNeedsQualification st then Assisted
      else if score (computeComplexity st) \<le> 2 then Streamlined
      else if score (computeComplexity st) \<le> 4 then Assisted
      else HighTouch)"
  by (simp add: computeComplexity_def modeOfScore_def Let_def)

text \<open>An individual, international order with the flag set: the sum of the rules is 7, the
  score is 5 and the mode is assisted, not high_touch.\<close>

theorem computeComplexity_score_mode_witness:
  "score (computeComplexity (emptyState\<lparr>shippingType := Some Individual, international := Some True,
      brandingNeedsQualification := True\<rparr>)) = 5 \<and>
   mode (computeComplexity (emptyState\<lparr>shippingType := Some Individual, international := Some True,
      brandingNeedsQualification := True\<rparr>)) = Assisted"
  using computeComplexity_score_mode [of "emptyState\<lparr>shippingType := Some Individual,
      international := Some True, brandingNeedsQualification := True\<rparr>"]
  by (simp add: computeComplexity_def rawScore_def scoreRule_def emptyState_def tightDeadline_def
      largeQuantity_def)

lemma pushIf_append: "pushIf c k xs = xs @ (if c then [k] else [])"
  by (simp add: pushIf_def)

lemma mem_pushIf: "x \<in> set (pushIf c k xs) \<longleftrightarrow> x \<in> set xs \<or> (c \<and> x = k)"
  by (auto simp: pushIf_def)

text \<open>
  Claim C2. For every ChatState, nextMissing returns exactly the keys of the fixed
  evaluation order: quantity, budgetPerUnitUsd, deadlineText, shippingType and branding
  each iff absent; then international iff shippingType is individual and international is
  absent; then distributionTiming iff shippingType is bulk and it is absent; then
  addressHandling iff shippingType is individual and it is absent; then email iff both
  email and phone are absent. In particular distributionTiming appears only when
  shippingType is bulk, and addressHandling only when shippingType is individual.
\<close>

theorem nextMissing_order:
  "nextMissing st =
     (if quantity st = None then [''quantity''] else []) @
     (if budgetPerUnitUsd st = None then [''budgetPerUnitUsd''] else []) @
     (if deadlineText st = None then [''deadlineText''] else []) @
     (if shippingType st = None then [''shippingType''] else []) @
     (if branding st = None then [''branding''] else []) @
     (if shippingType st = Some Individual \<and> international st = None then [''international''] else []) @
     (if shippingType st = Some Bulk \<and> distributionTiming st = None then [''distributionTiming''] else []) @
     (if shippingType st = Some Individual \<and> addressHandling st = None then [''addressHandling''] else []) @
     (if email st = None \<and> phone st = None then [''email''] else [])
   \<and> (''distributionTiming'' \<in> set (nextMissing st) \<longrightarrow> shippingType st = Some Bulk)
   \<and> (''addressHandling'' \<in> set (nextMissing st) \<longrightarrow> shippingType st = Some Individual)"
proof -
  have order: "nextMissing st =
     (if quantity st = None then [''quantity''] else []) @
     (if budgetPerUnitUsd st = None then [''budgetPerUnitUsd''] else []) @
     (if deadlineText st = None then [''deadlineText''] else []) @
     (if shippingType st = None then [''shippingType''] else []) @
     (if branding st = None then [''branding''] else []) @
     (if shippingType st = Some Individual \<and> international st = None then [''international''] else []) @
     (if shippingType st = Some Bulk \<and> distributionTiming st = None then [''distributionTiming''] else []) @
     (if shippingType st = Some Individual \<and> addressHandling st = None then [''addressHandling''] else []) @
     (if email st = None \<and> phone st = None then [''email''] else [])"
    by (simp only: nextMissing_def pushIf_append append_Nil append_assoc)
  have timing: "''distributionTiming'' \<in> set (nextMissing st) \<longrightarrow> shippingType st = Some Bulk"
    by (simp add: nextMissing_def mem_pushIf)
  have handling: "''addressHandling'' \<in> set (nextMissing st) \<longrightarrow> shippingType st = Some Individual"
    by (simp add: nextMissing_def mem_pushIf)
  from order timing handling show ?thesis by blast
qed

text \<open>A bulk order with a quantity and a phone number: distributionTiming is asked for,
  international, addressHandling and email are not.\<close>

theorem nextMissing_order_witness:
  "nextMissing (emptyState\<lparr>quantity := Some (Fin 40), shippingType := Some Bulk, phone := Some (js ''4155551234'')\<rparr>)
     = [''budgetPerUnitUsd'', ''deadlineText'', ''branding'', ''distributionTiming'']
   \<and> ''distributionTiming'' \<in> set (nextMissing (emptyState\<lparr>quantity := Some (Fin 40), shippingType := Some Bulk, phone := Some (js ''4155551234'')\<rparr>))
   \<and> shippingType (emptyState\<lparr>quantity := Some (Fin 40), shippingType := Some Bulk, phone := Some (js ''4155551234'')\<rparr>) = Some Bulk"
  using nextMissing_order [of "emptyState\<lparr>quantity := Some (Fin 40), shippingType := Some Bulk, phone := Some (js ''4155551234'')\<rparr>"]
  by (simp add: emptyState_def)

section \<open>The bundle matcher\<close>

lemma compareBundles_le: "compareBundles a b \<le> 0 \<longleftrightarrow> bundleOrder a b"
  by (auto simp: compareBundles_def bundleOrder_def)

lemma set_insertBy: "set (insertBy cmp x xs) = insert x (set xs)"
  by (induction xs) auto

lemma set_sortBy: "set (sortBy cmp xs) = set xs"
  by (induction xs) (auto simp: sortBy_def set_insertBy)

lemma length_insertBy: "length (insertBy cmp x xs) = Suc (length xs)"
  by (induction xs) auto

lemma bundleOrder_total: "\<not> bundleOrder a b \<Longrightarrow> bundleOrder b a"
  by (auto simp: bundleOrder_def)

lemma bundleOrder_trans: "bundleOrder a b \<Longrightarrow> bundleOrder b c \<Longrightarrow> bundleOrder a c"
  by (auto simp: bundleOrder_def)

lemma sorted_insertBy:
  "sorted_wrt bundleOrder xs \<Longrightarrow> sorted_wrt bundleOrder (insertBy compareBundles x xs)"
proof (induction xs)
  case Nil
  show ?case by simp
next
  case (Cons y ys)
  show ?case
  proof (cases "bundleOrder x y")
    case True
    with Cons.prems have "\<forall>z\<in>set ys. bundleOrder x z"
      using bundleOrder_trans by auto
    with True Cons.prems show ?thesis by (simp add: compareBundles_le)
  next
    case False
    then have "bundleOrder y x" by (rule bundleOrder_total)
    with False Cons show ?thesis by (auto simp: compareBundles_le set_insertBy)
  qed
qed

lemma sorted_sortBy: "sorted_wrt bundleOrder (sortBy compareBundles xs)"
proof (induction xs)
  case Nil
  show ?case by (simp add: sortBy_def)
next
  case (Cons x xs)
  then show ?case using sorted_insertBy [of "sortBy compareBundles xs" x] by (simp add: sortBy_def)
qed

lemma sorted_wrt_take_bundle: "sorted_wrt P xs \<Longrightarrow> sorted_wrt P (take n xs)"
proof (induction xs arbitrary: n)
  case Nil
  show ?case by simp
next
  case (Cons x xs)
  show ?case
  proof (cases n)
    case 0
    then show ?thesis by simp
  next
    case (Suc k)
    have "set (take k xs) \<subseteq> set xs" by (rule set_take_subset)
    with Cons Suc show ?thesis by auto
  qed
qed

lemma roundDouble_not_NaN: "roundDouble x \<noteq> NaN"
  by (simp add: roundDouble_def finite64_def)

lemma dmul_not_NaN: "a \<noteq> NaN \<Longrightarrow> dmul a (Fin (3 / 4)) \<noteq> NaN"
  by (cases a) (simp_all add: dmul_def roundDouble_not_NaN)

lemma not_lt_le: "a \<noteq> NaN \<Longrightarrow> b \<noteq> NaN \<Longrightarrow> \<not> lt b a \<Longrightarrow> le a b"
  by (cases a; cases b) auto

text \<open>
  Claim C7, amended. For every ChatState, suggestBundles returns the empty list when
  quantity or budgetPerUnitUsd is absent. Otherwise every returned bundle is the suggestion
  of a catalog bundle whose eligible shipping holds shippingType and whose eligible branding
  holds branding (an absent one counting as unknown); when the budget is not NaN its
  unitPrice is at most the product budget * 0.75 as JavaScript computes it, the double
  nearest to three quarters of the budget; when the quantity is not NaN it lies between
  minQty and maxQty. The result has at most 3 entries, is sorted by ascending leadTimeDays
  with ties by descending unitPrice, and an entry carries why = "Fast turnaround" exactly
  when its leadTimeDays is at most 6 (and no why otherwise).
\<close>

theorem suggestBundles_properties:
  "(quantity st = None \<or> budgetPerUnitUsd st = None \<longrightarrow> suggestBundles st = []) \<and>
   (\<forall>qty budget. quantity st = Some qty \<and> budgetPerUnitUsd st = Some budget \<longrightarrow>
      (\<forall>s\<in>set (suggestBundles st). \<exists>b\<in>set BUNDLES.
          sugName s = name b \<and> sugUnitPrice s = unitPrice b \<and> sugLeadTimeDays s = leadTimeDays b \<and>
          (budget \<noteq> NaN \<longrightarrow> le (Fin (unitPrice b)) (dmul budget (Fin (3 / 4)))) \<and>
          (qty \<noteq> NaN \<longrightarrow> le (Fin (minQty b)) qty \<and> le qty (Fin (maxQty b))) \<and>
          (case shippingType st of None \<Rightarrow> UnknownShipping | Some x \<Rightarrow> x) \<in> set (eligibleShipping b) \<and>
          (case branding st of None \<Rightarrow> UnknownBranding | Some x \<Rightarrow> x) \<in> set (eligibleBranding b))) \<and>
   length (suggestBundles st) \<le> 3 \<and>
   sorted_wrt (\<lambda>a b. sugLeadTimeDays a < sugLeadTimeDays b \<or>
                      (sugLeadTimeDays a = sugLeadTimeDays b \<and> sugUnitPrice b \<le> sugUnitPrice a))
              (suggestBundles st) \<and>
   (\<forall>s\<in>set (suggestBundles st).
       why s = (if sugLeadTimeDays s \<le> 6 then Some ''Fast turnaround'' else None))"
proof (cases "quantity st")
  case None
  then show ?thesis by (simp add: suggestBundles_def)
next
  case (Some qty)
  note q = this
  show ?thesis
  proof (cases "budgetPerUnitUsd st")
    case None
    with q show ?thesis by (simp add: suggestBundles_def)
  next
    case (Some budget)
    define ok where "ok = eligible qty (dmul budget (Fin (3 / 4))) (orUnknownShipping (shippingType st))
                            (orUnknownBranding (branding st))"
    define chosen where "chosen = take 3 (sortBy compareBundles (filter ok BUNDLES))"
    have res: "suggestBundles st = map suggestion chosen"
      using q Some by (simp add: suggestBundles_def chosen_def ok_def)
    have sub: "set chosen \<subseteq> {b \<in> set BUNDLES. ok b}"
      using set_take_subset [of 3 "sortBy compareBundles (filter ok BUNDLES)"]
      by (auto simp: chosen_def set_sortBy)
    have elig: "\<forall>s\<in>set (suggestBundles st). \<exists>b\<in>set BUNDLES.
          sugName s = name b \<and> sugUnitPrice s = unitPrice b \<and> sugLeadTimeDays s = leadTimeDays b \<and>
          (budget \<noteq> NaN \<longrightarrow> le (Fin (unitPrice b)) (dmul budget (Fin (3 / 4)))) \<and>
          (qty \<noteq> NaN \<longrightarrow> le (Fin (minQty b)) qty \<and> le qty (Fin (maxQty b))) \<and>
          (case shippingType st of None \<Rightarrow> UnknownShipping | Some x \<Rightarrow> x) \<in> set (eligibleShipping b) \<and>
          (case branding st of None \<Rightarrow> UnknownBranding | Some x \<Rightarrow> x) \<in> set (eligibleBranding b)"
    proof
      fix s assume "s \<in> set (suggestBundles st)"
      then obtain b where b: "b \<in> set chosen" "s = suggestion b" by (auto simp: res)
      from b(1) sub have "b \<in> set BUNDLES" "ok b" by auto
      from \<open>ok b\<close> have tests: "\<not> lt (dmul budget (Fin (3 / 4))) (Fin (unitPrice b))"
          "\<not> lt qty (Fin (minQty b))" "\<not> lt (Fin (maxQty b)) qty"
          "orUnknownShipping (shippingType st) \<in> set (eligibleShipping b)"
          "orUnknownBranding (branding st) \<in> set (eligibleBranding b)"
        by (simp_all add: ok_def eligible_def gt_def split: if_splits)
      have price: "le (Fin (unitPrice b)) (dmul budget (Fin (3 / 4)))" if "budget \<noteq> NaN"
        using that tests(1) by (intro not_lt_le) (simp_all add: dmul_not_NaN)
      have range: "le (Fin (minQty b)) qty \<and> le qty (Fin (maxQty b))" if "qty \<noteq> NaN"
        using that tests(2,3) by (auto intro: not_lt_le)
      from \<open>b \<in> set BUNDLES\<close> b(2) tests(4,5) price range show "\<exists>b\<in>set BUNDLES.
          sugName s = name b \<and> sugUnitPrice s = unitPrice b \<and> sugLeadTimeDays s = leadTimeDays b \<and>
          (budget \<noteq> NaN \<longrightarrow> le (Fin (unitPrice b)) (dmul budget (Fin (3 / 4)))) \<and>
          (qty \<noteq> NaN \<longrightarrow> le (Fin (minQty b)) qty \<and> le qty (Fin (maxQty b))) \<and>
          (case shippingType st of None \<Rightarrow> UnknownShipping | Some x \<Rightarrow> x) \<in> set (eligibleShipping b) \<and>
          (case branding st of None \<Rightarrow> UnknownBranding | Some x \<Rightarrow> x) \<in> set (eligibleBranding b)"
        by (intro bexI [of _ b]) (simp_all add: suggestion_def orUnknownShipping_def orUnknownBranding_def)
    qed
    have len: "length (suggestBundles st) \<le> 3"
      by (simp add: res chosen_def)
    have "sorted_wrt bundleOrder chosen"
      unfolding chosen_def by (rule sorted_wrt_take_bundle) (rule sorted_sortBy)
    then have srt: "sorted_wrt (\<lambda>a b. sugLeadTimeDays a < sugLeadTimeDays b \<or>
                      (sugLeadTimeDays a = sugLeadTimeDays b \<and> sugUnitPrice b \<le> sugUnitPrice a))
              (suggestBundles st)"
      by (simp add: res sorted_wrt_map suggestion_def bundleOrder_def [abs_def])
    have why: "\<forall>s\<in>set (suggestBundles st).
       why s = (if sugLeadTimeDays s \<le> 6 then Some ''Fast turnaround'' else None)"
      by (auto simp: res suggestion_def)
    from q Some elig len srt why show ?thesis by simp
  qed
qed

text \<open>Three quarters of 45 is 33.75, a double.\<close>

lemma margin_45: "dmul (Fin 45) (Fin (3 / 4)) = Fin (135 / 4)"
  by (simp add: dmul_def num_eval)

text \<open>Scenario A of the test harness: 40 gifts at 45 dollars, bulk, no branding.\<close>

lemma scenarioA_bundles:
  "suggestBundles (emptyState\<lparr>quantity := Some (Fin 40), budgetPerUnitUsd := Some (Fin 45),
       shippingType := Some Bulk, branding := Some NoBranding\<rparr>) =
     [\<lparr>sugName = ''Coffee Kit'', sugUnitPrice = 28, sugLeadTimeDays = 5, why = Some ''Fast turnaround''\<rparr>,
      \<lparr>sugName = ''Snack Box'', sugUnitPrice = 18, sugLeadTimeDays = 5, why = Some ''Fast turnaround''\<rparr>,
      \<lparr>sugName = ''Wellness / Tea Kit'', sugUnitPrice = 24, sugLeadTimeDays = 6, why = Some ''Fast turnaround''\<rparr>]"
  by (simp add: suggestBundles_def emptyState_def margin_45 BUNDLES_def eligible_def gt_def
      orUnknownShipping_def orUnknownBranding_def sortBy_def compareBundles_def suggestion_def)

theorem suggestBundles_properties_witness:
  "quantity (emptyState\<lparr>quantity := Some (Fin 40), budgetPerUnitUsd := Some (Fin 45),
       shippingType := Some Bulk, branding := Some NoBranding\<rparr>) = Some (Fin 40) \<and>
   budgetPerUnitUsd (emptyState\<lparr>quantity := Some (Fin 40), budgetPerUnitUsd := Some (Fin 45),
       shippingType := Some Bulk, branding := Some NoBranding\<rparr>) = Some (Fin 45) \<and>
   map sugName (suggestBundles (emptyState\<lparr>quantity := Some (Fin 40), budgetPerUnitUsd := Some (Fin 45),
       shippingType := Some Bulk, branding := Some NoBranding\<rparr>)) =
     [''Coffee Kit'', ''Snack Box'', ''Wellness / Tea Kit''] \<and>
   length (suggestBundles (emptyState\<lparr>quantity := Some (Fin 40), budgetPerUnitUsd := Some (Fin 45),
       shippingType := Some Bulk, branding := Some NoBranding\<rparr>)) \<le> 3"
  using suggestBundles_properties [of "emptyState\<lparr>quantity := Some (Fin 40),
       budgetPerUnitUsd := Some (Fin 45), shippingType := Some Bulk, branding := Some NoBranding\<rparr>"]
  by (simp add: scenarioA_bundles)

text \<open>
  The margin is not the exact product. The budget of marginOrder is the double nearest to
  29.333333333333332; three quarters of it are a little less than 22, and the product that
  JavaScript computes is the double 22. Notebook + Pen, at 22, is returned.
\<close>

lemma marginOrder_budget:
  "parseFloat (Some (js ''29.333333333333332'')) = Fin (8256599316845909 / 281474976710656)"
proof -
  have "parseFloat (Some (js ''29.333333333333332'')) = roundDouble (29333333333333332 / 1000000000000000)"
    by (simp add: parse_defs)
  also have "\<dots> = Fin (8256599316845909 / 281474976710656)"
    by (simp add: num_eval)
  finally show ?thesis .
qed

lemma marginOrder_margin: "dmul (Fin (8256599316845909 / 281474976710656)) (Fin (3 / 4)) = Fin 22"
  by (simp add: dmul_def num_eval)

theorem suggestBundles_margin_counterexample:
  "quantity marginOrder = Some (Fin 50) \<and>
   budgetPerUnitUsd marginOrder = Some (Fin (8256599316845909 / 281474976710656)) \<and>
   map (\<lambda>s. (sugName s, sugUnitPrice s)) (suggestBundles marginOrder) =
     [(''Snack Box'', 18), (''Notebook + Pen'', 22)] \<and>
   (8256599316845909 / 281474976710656 :: rat) * (3 / 4) < 22"
  by (simp add: marginOrder_def marginOrder_budget marginOrder_margin suggestBundles_def emptyState_def
      BUNDLES_def eligible_def gt_def orUnknownShipping_def orUnknownBranding_def sortBy_def
      compareBundles_def suggestion_def)
section \<open>What extractFromText keeps and what it overwrites\<close>

lemma setQuantity_frame:
  "budgetPerUnitUsd (setQuantity v st) = budgetPerUnitUsd st \<and>
   shippingType (setQuantity v st) = shippingType st \<and>
   branding (setQuantity v st) = branding st \<and>
   international (setQuantity v st) = international st \<and>
   email (setQuantity v st) = email st \<and>
   phone (setQuantity v st) = phone st \<and>
   deadlineText (setQuantity v st) = deadlineText st \<and>
   distributionTiming (setQuantity v st) = distributionTiming st \<and>
   addressHandling (setQuantity v st) = addressHandling st \<and>
   brandingNeedsQualification (setQuantity v st) = brandingNeedsQualification st"
  by (cases v) (simp_all add: setQuantity_def)

lemma quantity_setQuantity:
  "quantity (setQuantity v st) = (case v of None \<Rightarrow> quantity st | Some n \<Rightarrow> Some n)"
  by (cases v) (simp_all add: setQuantity_def)

lemma extractQuantity_frame:
  "budgetPerUnitUsd (extractQuantity t st) = budgetPerUnitUsd st \<and>
   shippingType (extractQuantity t st) = shippingType st \<and>
   branding (extractQuantity t st) = branding st \<and>
   international (extractQuantity t st) = international st \<and>
   email (extractQuantity t st) = email st \<and>
   phone (extractQuantity t st) = phone st \<and>
   deadlineText (extractQuantity t st) = deadlineText st \<and>
   distributionTiming (extractQuantity t st) = distributionTiming st \<and>
   addressHandling (extractQuantity t st) = addressHandling st \<and>
   brandingNeedsQualification (extractQuantity t st) = brandingNeedsQualification st"
  by (simp add: extractQuantity_def Let_def setQuantity_frame)

text \<open>What the quantity block leaves in quantity.\<close>

lemma quantity_extractQuantity:
  "quantity (extractQuantity t st) =
     (case rangeQtyValue t of
        Some v \<Rightarrow> Some v
      | None \<Rightarrow>
          (case quantity st of
             Some q \<Rightarrow> Some q
           | None \<Rightarrow>
               (case firstPositive parseInt10 qtyPatterns t of
                  Some n \<Rightarrow> Some n
                | None \<Rightarrow> startQtyValue t)))"
  by (simp add: extractQuantity_def Let_def quantity_setQuantity split: option.split)

lemma setBudget_frame:
  "quantity (setBudget v st) = quantity st \<and>
   shippingType (setBudget v st) = shippingType st \<and>
   branding (setBudget v st) = branding st \<and>
   international (setBudget v st) = international st \<and>
   email (setBudget v st) = email st \<and>
   phone (setBudget v st) = phone st \<and>
   deadlineText (setBudget v st) = deadlineText st \<and>
   distributionTiming (setBudget v st) = distributionTiming st \<and>
   addressHandling (setBudget v st) = addressHandling st \<and>
   brandingNeedsQualification (setBudget v st) = brandingNeedsQualification st"
  by (cases v) (simp_all add: setBudget_def)

lemma budget_setBudget:
  "budgetPerUnitUsd (setBudget v st) = (case v of None \<Rightarrow> budgetPerUnitUsd st | Some n \<Rightarrow> Some n)"
  by (cases v) (simp_all add: setBudget_def)

lemma extractBudget_frame:
  "quantity (extractBudget t st) = quantity st \<and>
   shippingType (extractBudget t st) = shippingType st \<and>
   branding (extractBudget t st) = branding st \<and>
   international (extractBudget t st) = international st \<and>
   email (extractBudget t st) = email st \<and>
   phone (extractBudget t st) = phone st \<and>
   deadlineText (extractBudget t st) = deadlineText st \<and>
   distributionTiming (extractBudget t st) = distributionTiming st \<and>
   addressHandling (extractBudget t st) = addressHandling st \<and>
   brandingNeedsQualification (extractBudget t st) = brandingNeedsQualification st"
  by (simp add: extractBudget_def Let_def setBudget_frame)

lemma budget_extractBudget:
  "budgetPerUnitUsd (extractBudget t st) =
     (case rangeBudgetValue t of
        Some v \<Rightarrow> Some v
      | None \<Rightarrow>
          (case budgetPerUnitUsd st of
             Some q \<Rightarrow> Some q
           | None \<Rightarrow> firstPositive parseFloat budgetPatterns t))"
  by (simp add: extractBudget_def Let_def budget_setBudget split: option.split)

lemma extractShippingType_frame:
  "quantity (extractShippingType t st) = quantity st \<and>
   budgetPerUnitUsd (extractShippingType t st) = budgetPerUnitUsd st \<and>
   branding (extractShippingType t st) = branding st \<and>
   international (extractShippingType t st) = international st \<and>
   email (extractShippingType t st) = email st \<and>
   phone (extractShippingType t st) = phone st \<and>
   deadlineText (extractShippingType t st) = deadlineText st \<and>
   distributionTiming (extractShippingType t st) = distributionTiming st \<and>
   addressHandling (extractShippingType t st) = addressHandling st \<and>
   brandingNeedsQualification (extractShippingType t st) = brandingNeedsQualification st"
  by (simp add: extractShippingType_def)

lemma shippingType_kept:
  "shippingType st \<noteq> None \<Longrightarrow> shippingType (extractShippingType t st) \<noteq> None"
  by (simp add: extractShippingType_def)

lemma extractBranding_frame:
  "quantity (extractBranding t st) = quantity st \<and>
   budgetPerUnitUsd (extractBranding t st) = budgetPerUnitUsd st \<and>
   shippingType (extractBranding t st) = shippingType st \<and>
   international (extractBranding t st) = international st \<and>
   email (extractBranding t st) = email st \<and>
   phone (extractBranding t st) = phone st \<and>
   deadlineText (extractBranding t st) = deadlineText st \<and>
   distributionTiming (extractBranding t st) = distributionTiming st \<and>
   addressHandling (extractBranding t st) = addressHandling st"
  by (simp add: extractBranding_def split: option.split)

lemma branding_extractBranding:
  "branding (extractBranding t st) =
     (if uncertainBranding t then None
      else (case firstRule brandingRules t of None \<Rightarrow> branding st | Some ty \<Rightarrow> Some ty))"
  by (simp add: extractBranding_def split: option.split)

lemma flag_extractBranding:
  "brandingNeedsQualification (extractBranding t st) =
     (uncertainBranding t \<or> brandingNeedsQualification st)"
  by (simp add: extractBranding_def split: option.split)

lemma extractDistributionTiming_frame:
  "quantity (extractDistributionTiming t st) = quantity st \<and>
   budgetPerUnitUsd (extractDistributionTiming t st) = budgetPerUnitUsd st \<and>
   shippingType (extractDistributionTiming t st) = shippingType st \<and>
   branding (extractDistributionTiming t st) = branding st \<and>
   international (extractDistributionTiming t st) = international st \<and>
   email (extractDistributionTiming t st) = email st \<and>
   phone (extractDistributionTiming t st) = phone st \<and>
   deadlineText (extractDistributionTiming t st) = deadlineText st \<and>
   addressHandling (extractDistributionTiming t st) = addressHandling st \<and>
   brandingNeedsQualification (extractDistributionTiming t st) = brandingNeedsQualification st"
  by (simp add: extractDistributionTiming_def)

lemma distributionTiming_kept:
  "distributionTiming st \<noteq> None \<Longrightarrow> distributionTiming (extractDistributionTiming t st) \<noteq> None"
  by (simp add: extractDistributionTiming_def)

lemma extractAddressHandling_frame:
  "quantity (extractAddressHandling t st) = quantity st \<and>
   budgetPerUnitUsd (extractAddressHandling t st) = budgetPerUnitUsd st \<and>
   shippingType (extractAddressHandling t st) = shippingType st \<and>
   branding (extractAddressHandling t st) = branding st \<and>
   international (extractAddressHandling t st) = international st \<and>
   email (extractAddressHandling t st) = email st \<and>
   phone (extractAddressHandling t st) = phone st \<and>
   deadlineText (extractAddressHandling t st) = deadlineText st \<and>
   distributionTiming (extractAddressHandling t st) = distributionTiming st \<and>
   brandingNeedsQualification (extractAddressHandling t st) = brandingNeedsQualification st"
  by (simp add: extractAddressHandling_def)

lemma addressHandling_kept:
  "addressHandling st \<noteq> None \<Longrightarrow> addressHandling (extractAddressHandling t st) \<noteq> None"
  by (simp add: extractAddressHandling_def)

lemma extractInternational_frame:
  "quantity (extractInternational t st) = quantity st \<and>
   budgetPerUnitUsd (extractInternational t st) = budgetPerUnitUsd st \<and>
   shippingType (extractInternational t st) = shippingType st \<and>
   branding (extractInternational t st) = branding st \<and>
   email (extractInternational t st) = email st \<and>
   phone (extractInternational t st) = phone st \<and>
   deadlineText (extractInternational t st) = deadlineText st \<and>
   distributionTiming (extractInternational t st) = distributionTiming st \<and>
   addressHandling (extractInternational t st) = addressHandling st \<and>
   brandingNeedsQualification (extractInternational t st) = brandingNeedsQualification st"
  by (simp add: extractInternational_def)

lemma international_kept:
  "international st \<noteq> None \<Longrightarrow> international (extractInternational t st) \<noteq> None"
  by (auto simp: extractInternational_def)

lemma extractEmail_frame:
  "quantity (extractEmail t st) = quantity st \<and>
   budgetPerUnitUsd (extractEmail t st) = budgetPerUnitUsd st \<and>
   shippingType (extractEmail t st) = shippingType st \<and>
   branding (extractEmail t st) = branding st \<and>
   international (extractEmail t st) = international st \<and>
   phone (extractEmail t st) = phone st \<and>
   deadlineText (extractEmail t st) = deadlineText st \<and>
   distributionTiming (extractEmail t st) = distributionTiming st \<and>
   addressHandling (extractEmail t st) = addressHandling st \<and>
   brandingNeedsQualification (extractEmail t st) = brandingNeedsQualification st"
  by (simp add: extractEmail_def split: option.split)

lemma email_kept: "email st \<noteq> None \<Longrightarrow> email (extractEmail t st) \<noteq> None"
  by (simp add: extractEmail_def split: option.split)

lemma extractPhone_frame:
  "quantity (extractPhone t st) = quantity st \<and>
   budgetPerUnitUsd (extractPhone t st) = budgetPerUnitUsd st \<and>
   shippingType (extractPhone t st) = shippingType st \<and>
   branding (extractPhone t st) = branding st \<and>
   international (extractPhone t st) = international st \<and>
   email (extractPhone t st) = email st \<and>
   deadlineText (extractPhone t st) = deadlineText st \<and>
   distributionTiming (extractPhone t st) = distributionTiming st \<and>
   addressHandling (extractPhone t st) = addressHandling st \<and>
   brandingNeedsQualification (extractPhone t st) = brandingNeedsQualification st"
  by (simp add: extractPhone_def split: option.split)

lemma phone_kept: "phone st \<noteq> None \<Longrightarrow> phone (extractPhone t st) \<noteq> None"
  by (simp add: extractPhone_def split: option.split)

lemma extractDeadlineText_frame:
  "quantity (extractDeadlineText t st) = quantity st \<and>
   budgetPerUnitUsd (extractDeadlineText t st) = budgetPerUnitUsd st \<and>
   shippingType (extractDeadlineText t st) = shippingType st \<and>
   branding (extractDeadlineText t st) = branding st \<and>
   international (extractDeadlineText t st) = international st \<and>
   email (extractDeadlineText t st) = email st \<and>
   phone (extractDeadlineText t st) = phone st \<and>
   distributionTiming (extractDeadlineText t st) = distributionTiming st \<and>
   addressHandling (extractDeadlineText t st) = addressHandling st \<and>
   brandingNeedsQualification (extractDeadlineText t st) = brandingNeedsQualification st"
  by (simp add: extractDeadlineText_def split: option.split)

lemma deadlineText_kept:
  "deadlineText st \<noteq> None \<Longrightarrow> deadlineText (extractDeadlineText t st) \<noteq> None"
  by (simp add: extractDeadlineText_def split: option.split)

lemmas extract_frames = extractQuantity_frame extractBudget_frame extractShippingType_frame
  extractBranding_frame extractDistributionTiming_frame extractAddressHandling_frame
  extractInternational_frame extractEmail_frame extractPhone_frame extractDeadlineText_frame

text \<open>The fields of the result, each as what its own block leaves.\<close>

lemma extractFromText_quantity:
  "quantity (extractFromText utterance st) = quantity (extractQuantity (jsTrim utterance) st)"
  by (simp add: extractFromText_def Let_def extract_frames)

lemma extractFromText_budget:
  "budgetPerUnitUsd (extractFromText utterance st) = budgetPerUnitUsd (extractBudget (jsTrim utterance) st)"
  by (simp add: extractFromText_def Let_def extract_frames budget_extractBudget split: option.split)

lemma extractFromText_branding:
  "branding (extractFromText utterance st) = branding (extractBranding (jsTrim utterance) st)"
  by (simp add: extractFromText_def Let_def extract_frames branding_extractBranding split: option.split)

lemma extractFromText_flag:
  "brandingNeedsQualification (extractFromText utterance st) =
     brandingNeedsQualification (extractBranding (jsTrim utterance) st)"
  by (simp add: extractFromText_def Let_def extract_frames flag_extractBranding)

text \<open>
  Claim C3. For every utterance and every prior ChatState, a field that is set in the prior state
  is still set in extractFromText(utterance, priorState), with the single exception of branding:
  branding is cleared, and the brandingNeedsQualification flag set, exactly when the utterance
  both expresses uncertainty and mentions branding vocabulary. (The flag itself is carried
  over otherwise.)
\<close>

theorem extractFromText_keeps_fields:
  "(quantity prev \<noteq> None \<longrightarrow> quantity (extractFromText utterance prev) \<noteq> None) \<and>
   (budgetPerUnitUsd prev \<noteq> None \<longrightarrow> budgetPerUnitUsd (extractFromText utterance prev) \<noteq> None) \<and>
   (shippingType prev \<noteq> None \<longrightarrow> shippingType (extractFromText utterance prev) \<noteq> None) \<and>
   (international prev \<noteq> None \<longrightarrow> international (extractFromText utterance prev) \<noteq> None) \<and>
   (email prev \<noteq> None \<longrightarrow> email (extractFromText utterance prev) \<noteq> None) \<and>
   (phone prev \<noteq> None \<longrightarrow> phone (extractFromText utterance prev) \<noteq> None) \<and>
   (deadlineText prev \<noteq> None \<longrightarrow> deadlineText (extractFromText utterance prev) \<noteq> None) \<and>
   (distributionTiming prev \<noteq> None \<longrightarrow> distributionTiming (extractFromText utterance prev) \<noteq> None) \<and>
   (addressHandling prev \<noteq> None \<longrightarrow> addressHandling (extractFromText utterance prev) \<noteq> None) \<and>
   (branding prev \<noteq> None \<longrightarrow>
      (branding (extractFromText utterance prev) = None) = uncertainBranding (jsTrim utterance)) \<and>
   (uncertainBranding (jsTrim utterance) \<longrightarrow>
      branding (extractFromText utterance prev) = None \<and>
      brandingNeedsQualification (extractFromText utterance prev)) \<and>
   (\<not> uncertainBranding (jsTrim utterance) \<longrightarrow>
      brandingNeedsQualification (extractFromText utterance prev) = brandingNeedsQualification prev)"
proof -
  have q: "quantity prev \<noteq> None \<longrightarrow> quantity (extractFromText utterance prev) \<noteq> None"
    by (simp add: extractFromText_quantity quantity_extractQuantity split: option.split)
  have b: "budgetPerUnitUsd prev \<noteq> None \<longrightarrow> budgetPerUnitUsd (extractFromText utterance prev) \<noteq> None"
    by (simp add: extractFromText_budget budget_extractBudget split: option.split)
  have s: "shippingType prev \<noteq> None \<longrightarrow> shippingType (extractFromText utterance prev) \<noteq> None"
    using shippingType_kept [of "extractBudget (jsTrim utterance) (extractQuantity (jsTrim utterance) prev)" "jsTrim utterance"]
    by (simp add: extractFromText_def Let_def extract_frames)
  have i: "international prev \<noteq> None \<longrightarrow> international (extractFromText utterance prev) \<noteq> None"
    by (simp add: extractFromText_def Let_def extract_frames international_kept)
  have e: "email prev \<noteq> None \<longrightarrow> email (extractFromText utterance prev) \<noteq> None"
    by (simp add: extractFromText_def Let_def extract_frames email_kept)
  have p: "phone prev \<noteq> None \<longrightarrow> phone (extractFromText utterance prev) \<noteq> None"
    by (simp add: extractFromText_def Let_def extract_frames phone_kept)
  have d: "deadlineText prev \<noteq> None \<longrightarrow> deadlineText (extractFromText utterance prev) \<noteq> None"
    by (simp add: extractFromText_def Let_def extract_frames deadlineText_kept)
  have t: "distributionTiming prev \<noteq> None \<longrightarrow> distributionTiming (extractFromText utterance prev) \<noteq> None"
    by (simp add: extractFromText_def Let_def extract_frames distributionTiming_kept)
  have a: "addressHandling prev \<noteq> None \<longrightarrow> addressHandling (extractFromText utterance prev) \<noteq> None"
    by (simp add: extractFromText_def Let_def extract_frames addressHandling_kept)
  have br: "branding prev \<noteq> None \<longrightarrow>
      (branding (extractFromText utterance prev) = None) = uncertainBranding (jsTrim utterance)"
    by (simp add: extractFromText_branding branding_extractBranding extract_frames split: option.split)
  have u: "uncertainBranding (jsTrim utterance) \<longrightarrow>
      branding (extractFromText utterance prev) = None \<and>
      brandingNeedsQualification (extractFromText utterance prev)"
    by (simp add: extractFromText_branding extractFromText_flag branding_extractBranding
        flag_extractBranding)
  have n: "\<not> uncertainBranding (jsTrim utterance) \<longrightarrow>
      brandingNeedsQualification (extractFromText utterance prev) = brandingNeedsQualification prev"
    by (simp add: extractFromText_flag flag_extractBranding extract_frames)
  from q b s i e p d t a br u n show ?thesis by blast
qed

text \<open>"not sure about the logo" clears the sticker branding, sets the flag and keeps the
  quantity; scenario D expresses no uncertainty and leaves branding set.\<close>

theorem extractFromText_keeps_fields_witness:
  "quantity (extractFromText (js ''not sure about the logo'')
      (emptyState\<lparr>quantity := Some (Fin 30), branding := Some Sticker\<rparr>)) \<noteq> None \<and>
   uncertainBranding (jsTrim (js ''not sure about the logo'')) \<and>
   branding (extractFromText (js ''not sure about the logo'')
      (emptyState\<lparr>quantity := Some (Fin 30), branding := Some Sticker\<rparr>)) = None \<and>
   brandingNeedsQualification (extractFromText (js ''not sure about the logo'')
      (emptyState\<lparr>quantity := Some (Fin 30), branding := Some Sticker\<rparr>)) \<and>
   \<not> uncertainBranding (jsTrim scenarioD) \<and>
   branding (extractFromText scenarioD (emptyState\<lparr>branding := Some Sticker\<rparr>)) \<noteq> None"
  using extractFromText_keeps_fields [of "emptyState\<lparr>quantity := Some (Fin 30), branding := Some Sticker\<rparr>"
      "js ''not sure about the logo''"]
    extractFromText_keeps_fields [of "emptyState\<lparr>branding := Some Sticker\<rparr>" scenarioD]
  by (simp add: uncertainBranding_def W_notsure_uncertain W_notsure_vocab D_uncertainRe emptyState_def)

text \<open>
  Claim C9, as amended. In extractFromText the range step for quantity looks at one match
  only: that of the first of the three range patterns (between A and B, A to B, A - B, in
  this order) that matches the trimmed utterance, at its leftmost match. When both numbers
  of that match are positive, quantity becomes Math.round((A + B) / 2), computed in
  doubles, whether it was set or not. When no range pattern matches, or a number of the
  selected match is not positive (also when another range phrase follows in the utterance),
  an already-set quantity is unchanged: the single-number patterns and the leading-number
  fallback run only when quantity is still unset after the range step. The same holds for
  budgetPerUnitUsd, with Math.round(((A + B) / 2) * 100) / 100 computed in doubles.
\<close>

theorem extractFromText_range_or_gated:
  "(rangeQty (jsTrim utterance) = Some m \<and> parseInt10 (grp 1 m) = a \<and> parseInt10 (grp 2 m) = b \<and>
        positive a \<and> positive b \<longrightarrow>
        quantity (extractFromText utterance prev) = Some (mathRound (ddiv (dadd a b) (Fin 2)))) \<and>
   ((\<forall>m. rangeQty (jsTrim utterance) = Some m \<longrightarrow>
          \<not> (positive (parseInt10 (grp 1 m)) \<and> positive (parseInt10 (grp 2 m)))) \<and>
        quantity prev = Some q \<longrightarrow>
        quantity (extractFromText utterance prev) = Some q) \<and>
   (rangeBudget (jsTrim utterance) = Some m' \<and> parseFloat (grp 1 m') = a' \<and>
        parseFloat (grp 2 m') = b' \<and> positive a' \<and> positive b' \<longrightarrow>
        budgetPerUnitUsd (extractFromText utterance prev) =
          Some (ddiv (mathRound (dmul (ddiv (dadd a' b') (Fin 2)) (Fin 100))) (Fin 100))) \<and>
   ((\<forall>m. rangeBudget (jsTrim utterance) = Some m \<longrightarrow>
          \<not> (positive (parseFloat (grp 1 m)) \<and> positive (parseFloat (grp 2 m)))) \<and>
        budgetPerUnitUsd prev = Some q' \<longrightarrow>
        budgetPerUnitUsd (extractFromText utterance prev) = Some q')"
  by (auto simp: extractFromText_quantity quantity_extractQuantity extractFromText_budget
      budget_extractBudget rangeQtyValue_def rangeBudgetValue_def midpoint_def midpointCents_def
      split: option.split)

text \<open>The claim as stated fails when a number of the range is zero: "between 0 and 50
  people" is matched by the range pattern, and a quantity of 10 is kept, not replaced by
  the midpoint 25.\<close>

theorem range_overwrites_counterexample:
  "rangeQty (jsTrim (js ''between 0 and 50 people'')) =
     Some [(0, js ''between 0 and 50 people''), (2, js ''50''), (1, js ''0'')] \<and>
   quantity (extractFromText (js ''between 0 and 50 people'') (emptyState\<lparr>quantity := Some (Fin 10)\<rparr>))
     = Some (Fin 10) \<and>
   mathRound (ddiv (dadd (parseInt10 (Some (js ''0''))) (parseInt10 (Some (js ''50'')))) (Fin 2)) = Fin 25"
  by (simp add: W_range_0_50 extractFromText_quantity quantity_extractQuantity rangeQtyValue_def
      grp_def parse_small emptyState_def positive_def gt_def midpoint_0_50)

text \<open>
  A range with two positive numbers overwrites the quantity 10 with 40. In "between 0 and 5
  or 30 to 50 people" the selected match is "between 0 and 5", and the quantity 10 stays,
  as it does for "50 people". The budget 99 becomes 30 for "between 25 and 35 each" and stays
  for "$45 each"; "$10 - $25.49 per person" gives the double that 17.74 denotes, not 17.75.
\<close>

theorem extractFromText_range_or_gated_witness:
  "quantity (extractFromText (js ''between 30 and 50 recipients'') (emptyState\<lparr>quantity := Some (Fin 10)\<rparr>))
     = Some (Fin 40) \<and>
   quantity (extractFromText (js ''between 0 and 5 or 30 to 50 people'')
      (emptyState\<lparr>quantity := Some (Fin 10)\<rparr>)) = Some (Fin 10) \<and>
   quantity (extractFromText (js ''50 people'') (emptyState\<lparr>quantity := Some (Fin 10)\<rparr>))
     = Some (Fin 10) \<and>
   budgetPerUnitUsd (extractFromText (js ''between 25 and 35 each'')
      (emptyState\<lparr>budgetPerUnitUsd := Some (Fin 99)\<rparr>)) = Some (Fin 30) \<and>
   budgetPerUnitUsd (extractFromText (js ''$45 each'') (emptyState\<lparr>budgetPerUnitUsd := Some (Fin 99)\<rparr>))
     = Some (Fin 99) \<and>
   budgetPerUnitUsd (extractFromText (js ''$10 - $25.49 per person'') emptyState)
     = Some (parseFloat (Some (js ''17.74'')))"
  using
    extractFromText_range_or_gated [where utterance = "js ''between 30 and 50 recipients''"
      and prev = "emptyState\<lparr>quantity := Some (Fin 10)\<rparr>"
      and m = "[(0, js ''between 30 and 50 recipients''), (2, js ''50''), (1, js ''30'')]"
      and a = "Fin 30" and b = "Fin 50"]
    extractFromText_range_or_gated [where utterance = "js ''between 0 and 5 or 30 to 50 people''"
      and prev = "emptyState\<lparr>quantity := Some (Fin 10)\<rparr>" and q = "Fin 10"]
    extractFromText_range_or_gated [where utterance = "js ''50 people''"
      and prev = "emptyState\<lparr>quantity := Some (Fin 10)\<rparr>" and q = "Fin 10"]
    extractFromText_range_or_gated [where utterance = "js ''between 25 and 35 each''"
      and prev = "emptyState\<lparr>budgetPerUnitUsd := Some (Fin 99)\<rparr>"
      and m' = "[(0, js ''between 25 and 35 each''), (2, js ''35''), (1, js ''25'')]"
      and a' = "Fin 25" and b' = "Fin 35"]
    extractFromText_range_or_gated [where utterance = "js ''$45 each''"
      and prev = "emptyState\<lparr>budgetPerUnitUsd := Some (Fin 99)\<rparr>" and q' = "Fin 99"]
    extractFromText_range_or_gated [where utterance = "js ''$10 - $25.49 per person''"
      and prev = emptyState
      and m' = "[(0, js ''$10 - $25.49 per ''), (2, js ''25.49''), (1, js ''10'')]"
      and a' = "Fin 10" and b' = "Fin (7174797156354621 / 281474976710656)"]
  by (simp add: W_range_30_50 W_range_0_5 W_range_50_people W_budget_25_35 W_budget_45_each
      W_budget_10_2549 grp_def parse_small parse_decimals emptyState_def positive_def gt_def
      midpoint_30_50 midpointCents_25_35 midpointCents_10_2549)
section \<open>Scenario D\<close>

lemma emptyState_fields:
  "quantity emptyState = None" "budgetPerUnitUsd emptyState = None" "shippingType emptyState = None"
  "branding emptyState = None" "international emptyState = None" "email emptyState = None"
  "phone emptyState = None" "deadlineText emptyState = None" "distributionTiming emptyState = None"
  "addressHandling emptyState = None" "brandingNeedsQualification emptyState = False"
  by (simp_all add: emptyState_def)

lemma D_quantity:
  "extractQuantity (jsTrim scenarioD) emptyState = emptyState\<lparr>quantity := Some (Fin 250)\<rparr>"
  by (simp add: extractQuantity_def rangeQtyValue_def setQuantity_def qtyPatterns_def Let_def
      D_rangeQty D_qtyPattern1 grp_def parse_250 positive_def gt_def emptyState_fields)

lemma D_budget:
  "extractBudget (jsTrim scenarioD) st = st\<lparr>budgetPerUnitUsd := budgetPerUnitUsd st\<rparr>"
  by (simp add: extractBudget_def rangeBudgetValue_def setBudget_def budgetPatterns_def Let_def
      D_rangeBudget D_budgetPattern1 D_budgetPattern2 D_budgetPattern3 D_budgetPattern4
      D_budgetPattern5 D_budgetPattern6 D_budgetPattern7)

lemma D_shippingType:
  "extractShippingType (jsTrim scenarioD) st = st\<lparr>shippingType := Some Individual\<rparr>"
  by (simp add: extractShippingType_def D_individualKw)

lemma D_branding:
  "extractBranding (jsTrim scenarioD) st = st\<lparr>branding := Some Embroidery\<rparr>"
  by (simp add: extractBranding_def uncertainBranding_def brandingRules_def D_uncertainRe D_embroideryRe)

lemma D_distributionTiming:
  "shippingType st = Some Individual \<Longrightarrow> extractDistributionTiming (jsTrim scenarioD) st = st"
  by (simp add: extractDistributionTiming_def)

lemma D_addressHandling:
  "shippingType st = Some Individual \<Longrightarrow> addressHandling st = None \<Longrightarrow>
   extractAddressHandling (jsTrim scenarioD) st = st\<lparr>addressHandling := Some HandledByUs\<rparr>"
  by (simp add: extractAddressHandling_def unsurePhrase_def D_unsurePhraseRe D_providedRe D_handledRe)

lemma D_international:
  "extractInternational (jsTrim scenarioD) st = st\<lparr>international := Some True\<rparr>"
  by (simp add: extractInternational_def D_bareYesRe D_bareNoRe D_noInternationalRe D_internationalKwRe)

lemma D_email: "extractEmail (jsTrim scenarioD) st = st"
  by (simp add: extractEmail_def D_emailRe)

lemma D_phone: "extractPhone (jsTrim scenarioD) st = st"
  by (simp add: extractPhone_def D_phoneRe)

lemma D_deadlineText:
  "extractDeadlineText (jsTrim scenarioD) st = st\<lparr>deadlineText := Some (js ''in 2 weeks'')\<rparr>"
  by (simp add: extractDeadlineText_def deadlinePatterns_def D_deadlinePattern1 D_deadlinePattern2
      D_deadlinePattern3 D_deadlinePattern4 D_deadlinePattern5 grp_def orElse_def trim_in_2_weeks)

lemma D_state:
  "extractFromText scenarioD emptyState =
     emptyState\<lparr>quantity := Some (Fin 250), shippingType := Some Individual, branding := Some Embroidery,
       addressHandling := Some HandledByUs, international := Some True,
       deadlineText := Some (js ''in 2 weeks'')\<rparr>"
  by (simp add: extractFromText_def Let_def D_quantity D_budget D_shippingType D_branding
      D_distributionTiming D_addressHandling D_international D_email D_phone D_deadlineText
      emptyState_fields)

lemma D_tight: "isTightDeadline (js ''in 2 weeks'')"
  by (simp add: isTightDeadline_def Let_def toLowerCase_def lowerUnit_def atMost_def grp_def
      parse_small [unfolded js_def, simplified] rx_steps rx_patterns cong: rx_blocked)

lemma D_raw: "fst (rawScore (extractFromText scenarioD emptyState)) = 10"
  by (simp add: D_state D_tight rawScore_def scoreRule_def tightDeadline_def largeQuantity_def
      gt_def emptyState_fields)

lemma D_flag: "\<not> brandingNeedsQualification (extractFromText scenarioD emptyState)"
  by (simp add: D_state emptyState_fields)

text \<open>
  Claim C4. extractFromText on the empty state with the message of scenario D ("250
  embroidered hoodies, ship to individual addresses in US and Canada, you handle collection
  and distribution, need them in 2 weeks."), then computeComplexity on the result, gives the
  tier high_touch and a score of at least 5: the rules add up to 10, which is clamped to 5.
\<close>

theorem scenarioD_high_touch:
  "mode (computeComplexity (extractFromText scenarioD emptyState)) = HighTouch \<and>
   score (computeComplexity (extractFromText scenarioD emptyState)) = 5 \<and>
   5 \<le> fst (rawScore (extractFromText scenarioD emptyState))"
  by (simp add: D_raw D_flag computeComplexity_def Let_def modeOfScore_def)

section \<open>The turn handler\<close>

text \<open>
  Claim C6. For every turn whose message is classified as an unsure phrase, the returned
  state is the input state except for at most one fixed default: when nextField (as chosen
  from the unchanged state) is branding, the returned state differs from the input only by
  branding = none; when it is international, only by international = false; for any other
  nextField, and for none, the returned state is the input state.
\<close>

theorem POST_unsure_state:
  "isUnsurePhrase (jsTrim message) \<Longrightarrow>
   state (POST message st) =
     (case selectNextField (mode (computeComplexity st)) st (nextMissing st) of
        None \<Rightarrow> st
      | Some f \<Rightarrow>
          if f = ''branding'' then st\<lparr>branding := Some NoBranding\<rparr>
          else if f = ''international'' then st\<lparr>international := Some False\<rparr>
          else st)"
  by (simp add: POST_def applyMessage_def Let_def skipDefault_def split: option.split)

text \<open>"I don't know" on the bulk order that lacks branding: branding becomes none and
  nothing else changes.\<close>

theorem POST_unsure_state_witness:
  "isUnsurePhrase (jsTrim (js ''I don't know'')) \<and>
   selectNextField (mode (computeComplexity bulkOrder)) bulkOrder (nextMissing bulkOrder) = Some ''branding'' \<and>
   state (POST (js ''I don't know'') bulkOrder) = bulkOrder\<lparr>branding := Some NoBranding\<rparr>"
  using POST_unsure_state [OF idk_unsure, of bulkOrder] idk_unsure
  by (simp add: selectNextField_def firstNonEmail_def nextMissing_def pushIf_def bulkOrder_def
      emptyState_def)

subsection \<open>A dollar sign and a number\<close>

lemma many_none:
  assumes "\<And>xs s'. s = xs @ s' \<Longrightarrow> list_all P xs \<Longrightarrow> lo \<le> length xs \<Longrightarrow>
             matchFrames k (rev xs @ pre) s' cs = None"
  shows "matchFrames (R (Many P lo) # k) pre s cs = None"
  using assms
proof (induction s arbitrary: pre lo)
  case Nil
  from Nil [of "[]" "[]"] show ?case by simp
next
  case (Cons c s)
  have here: "lo = 0 \<Longrightarrow> matchFrames k pre (c # s) cs = None"
    using Cons.prems [of "[]" "c # s"] by simp
  show ?case
  proof (cases "P c")
    case False
    with here show ?thesis by simp
  next
    case True
    have "matchFrames (R (Many P (lo - 1)) # k) (c # pre) s cs = None"
    proof (rule Cons.IH)
      fix xs s'
      assume "s = xs @ s'" "list_all P xs" "lo - 1 \<le> length xs"
      with True Cons.prems [of "c # xs" s'] show "matchFrames k (rev xs @ c # pre) s' cs = None"
        by simp
    qed
    with True here show ?thesis by simp
  qed
qed

lemma many_all:
  assumes "list_all P xs" "lo \<le> length xs" "s = [] \<or> \<not> P (hd s)"
    and "matchFrames k (rev xs @ pre) s cs = Some r"
  shows "matchFrames (R (Many P lo) # k) pre (xs @ s) cs = Some r"
  using assms
proof (induction xs arbitrary: pre lo)
  case Nil
  then show ?case by (cases s) auto
next
  case (Cons x xs)
  have "matchFrames (R (Many P (lo - 1)) # k) (x # pre) (xs @ s) cs = Some r"
    using Cons.prems by (intro Cons.IH) auto
  with Cons.prems show ?case by simp
qed

lemma search_anchored:
  assumes "\<And>pre rest. pre \<noteq> [] \<Longrightarrow> matchFrames [R r] pre rest [] = None"
  shows "pre \<noteq> [] \<Longrightarrow> regexSearch r pre rest = None"
proof (induction rest arbitrary: pre)
  case Nil
  with assms show ?case by (simp add: regexSearch.simps)
next
  case (Cons c rest)
  with assms show ?case by (simp add: regexSearch.simps)
qed

lemma search_anchored_start:
  assumes "\<And>pre rest. pre \<noteq> [] \<Longrightarrow> matchFrames [R r] pre rest [] = None"
  shows "regexSearch r [] t =
           (case matchFrames [R r] [] t [] of Some x \<Rightarrow> Some ([], x) | None \<Rightarrow> None)"
proof (cases t)
  case Nil
  then show ?thesis by (simp add: regexSearch.simps)
next
  case (Cons c rest)
  have "regexSearch r [c] rest = None" using assms by (intro search_anchored) auto
  with Cons show ?thesis by (simp add: regexSearch.simps split: option.split)
qed

lemma search_none:
  assumes "\<And>pre s'. (\<exists>xs. s = xs @ s') \<Longrightarrow> matchFrames [R r] pre s' [] = None"
  shows "regexSearch r pre s = None"
  using assms
proof (induction s arbitrary: pre)
  case Nil
  from Nil [of "[]"] show ?case by (simp add: regexSearch.simps)
next
  case (Cons c s)
  have "regexSearch r (c # pre) s = None"
  proof (rule Cons.IH)
    fix pre' s'
    assume "\<exists>xs. s = xs @ s'"
    then obtain xs where "c # s = (c # xs) @ s'" by auto
    then show "matchFrames [R r] pre' s' [] = None" by (intro Cons.prems) blast
  qed
  moreover have "matchFrames [R r] pre (c # s) [] = None"
    by (intro Cons.prems) (rule exI [of _ "[]"], simp)
  ultimately show ?case by (simp add: regexSearch.simps)
qed

lemma jsTrim_idem: "jsTrim (jsTrim t) = jsTrim t"
proof -
  define u where "u = dropWhile isSpace t"
  have u: "dropWhile isSpace u = u" by (simp add: u_def)
  define v where "v = rev (dropWhile isSpace (rev u))"
  have "dropWhile isSpace v = v"
  proof (cases u)
    case Nil
    then show ?thesis by (simp add: v_def)
  next
    case (Cons x xs)
    with u have nx: "\<not> isSpace x" by (metis dropWhile_eq_Cons_conv list.inject)
    have "rev u = rev xs @ [x]" using Cons by simp
    then have "dropWhile isSpace (rev u) = dropWhile isSpace (rev xs) @ [x]"
      using nx by (simp add: dropWhile_append3)
    then have "v = x # rev (dropWhile isSpace (rev xs))" by (simp add: v_def)
    with nx show ?thesis by simp
  qed
  moreover have "dropWhile isSpace (rev v) = rev v"
    by (simp add: v_def)
  ultimately show ?thesis by (simp add: jsTrim_def u_def v_def)
qed


lemmas rx_defs = cat_def opt_def lit_def liti_def words_def optS_def apos_def sp1_def sp0_def
  digits_def nonsp1_def decimal_def canon_def isLower_def isUpper_def isSpace_def isDigit_def
  oneOf_def js_def

lemma UNSURE_PATTERN_anchored: "pre \<noteq> [] \<Longrightarrow> matchFrames [R UNSURE_PATTERN] pre rest [] = None"
  by (simp add: UNSURE_PATTERN_def cat_def)

lemma unsureHaveRe_anchored: "pre \<noteq> [] \<Longrightarrow> matchFrames [R unsureHaveRe] pre rest [] = None"
  by (simp add: unsureHaveRe_def cat_def)

lemma rangeMatchRe1_anchored: "pre \<noteq> [] \<Longrightarrow> matchFrames [R rangeMatchRe1] pre rest [] = None"
  by (simp add: rangeMatchRe1_def cat_def)

lemma rangeMatchRe2_anchored: "pre \<noteq> [] \<Longrightarrow> matchFrames [R rangeMatchRe2] pre rest [] = None"
  by (simp add: rangeMatchRe2_def cat_def)

lemma rangeMatchRe3_anchored: "pre \<noteq> [] \<Longrightarrow> matchFrames [R rangeMatchRe3] pre rest [] = None"
  by (simp add: rangeMatchRe3_def cat_def)

lemma numericMatchRe_anchored: "pre \<noteq> [] \<Longrightarrow> matchFrames [R numericMatchRe] pre rest [] = None"
  by (simp add: numericMatchRe_def cat_def)

text \<open>A text that starts with the dollar sign is no unsure phrase and no bare range.\<close>

lemma dollar_UNSURE_PATTERN: "regexSearch UNSURE_PATTERN [] (36 # s) = None"
  apply (subst search_anchored_start [OF UNSURE_PATTERN_anchored])
   apply assumption
  apply (simp add: UNSURE_PATTERN_def doNot_def rx_defs)
  done

lemma dollar_unsureHaveRe: "regexSearch unsureHaveRe [] (36 # s) = None"
  apply (subst search_anchored_start [OF unsureHaveRe_anchored])
   apply assumption
  apply (simp add: unsureHaveRe_def doNot_def rx_defs)
  done

lemma dollar_rangeMatchRe1: "regexSearch rangeMatchRe1 [] (36 # s) = None"
  apply (subst search_anchored_start [OF rangeMatchRe1_anchored])
   apply assumption
  apply (simp add: rangeMatchRe1_def rx_defs)
  done

lemma dollar_rangeMatchRe2: "regexSearch rangeMatchRe2 [] (36 # s) = None"
  apply (subst search_anchored_start [OF rangeMatchRe2_anchored])
   apply assumption
  apply (simp add: rangeMatchRe2_def rx_defs)
  done

lemma dollar_rangeMatchRe3: "regexSearch rangeMatchRe3 [] (36 # s) = None"
  apply (subst search_anchored_start [OF rangeMatchRe3_anchored])
   apply assumption
  apply (simp add: rangeMatchRe3_def rx_defs)
  done

lemma dollar_rangeMatch: "rangeMatch (36 # s) = None"
  by (simp only: rangeMatch_def orElse_def matchRe_def dollar_rangeMatchRe1 dollar_rangeMatchRe2
      dollar_rangeMatchRe3 option.case)



lemma many_all_end:
  assumes "list_all P xs" "lo \<le> length xs" "matchFrames k (rev xs @ pre) [] cs = Some r"
  shows "matchFrames (R (Many P lo) # k) pre xs cs = Some r"
  using many_all [of P xs lo "[]" k pre cs r] assms by simp

lemma many_all_then:
  assumes "list_all P xs" "lo \<le> length xs" "\<not> P c" "matchFrames k (rev xs @ pre) (c # s) cs = Some r"
  shows "matchFrames (R (Many P lo) # k) pre (xs @ c # s) cs = Some r"
  using many_all [of P xs lo "c # s" k pre cs r] assms by simp

lemma numeric_int:
  assumes "list_all isDigit ds" "ds \<noteq> []"
  shows "matchFrames [R numericMatchRe] [] (36 # ds) [] = Some (rev ds @ [36], [], [(1, ds)])"
proof -
  from assms(2) have len: "Suc 0 \<le> length ds" by (cases ds) auto
  show ?thesis
    using assms(1) len by (simp add: numericMatchRe_def rx_defs many_all_end)
qed

lemma numeric_frac:
  assumes "list_all isDigit ds" "ds \<noteq> []" "list_all isDigit fs" "fs \<noteq> []"
  shows "matchFrames [R numericMatchRe] [] (36 # ds @ 46 # fs) [] =
           Some (rev fs @ 46 # rev ds @ [36], [], [(1, ds @ 46 # fs)])"
proof -
  from assms(2) have len: "Suc 0 \<le> length ds" by (cases ds) auto
  from assms(4) have len': "Suc 0 \<le> length fs" by (cases fs) auto
  show ?thesis
    using assms(1,3) len len' by (simp add: numericMatchRe_def rx_defs many_all_end many_all_then)
qed


text \<open>A text that does not end with one of \<^verbatim>\<open>.!?\<close> has no trailing punctuation to cut.\<close>

lemma trailingPunct_frames:
  assumes "s = [] \<or> \<not> oneOf ''.!?'' (last s)"
  shows "matchFrames [R trailingPunctRe] pre s [] = None"
proof -
  have punct: "matchFrames [R (Seq (Many (oneOf ''.!?'') (Suc 0)) (Seq Eol Eps))] pre' s1 [] = None"
    if s: "s = xs @ s1" for pre' xs s1
  proof -
    have "matchFrames [R (Many (oneOf ''.!?'') (Suc 0)), R (Seq Eol Eps)] pre' s1 [] = None"
    proof (rule many_none)
      fix ys s2
      assume s1: "s1 = ys @ s2" and ys: "list_all (oneOf ''.!?'') ys" "Suc 0 \<le> length ys"
      from ys(2) have ne: "ys \<noteq> []" by auto
      have "s2 \<noteq> []"
      proof
        assume "s2 = []"
        with s s1 ne have "s \<noteq> []" "last s = last ys" by auto
        moreover from ys(1) ne have "oneOf ''.!?'' (last ys)"
          by (simp add: list_all_iff)
        ultimately show False using assms by simp
      qed
      then show "matchFrames [R (Seq Eol Eps)] (rev ys @ pre') s2 [] = None" by simp
    qed
    then show ?thesis by simp
  qed
  have "matchFrames [R (Many isSpace 0), R (Seq (Many (oneOf ''.!?'') (Suc 0)) (Seq Eol Eps))] pre s [] = None"
    by (rule many_none) (rule punct)
  then show ?thesis by (simp add: trailingPunctRe_def cat_def sp0_def)
qed

lemma trailingPunct_search:
  assumes "s = [] \<or> \<not> oneOf ''.!?'' (last s)"
  shows "regexSearch trailingPunctRe pre s = None"
proof (rule search_none)
  fix pre' s'
  assume "\<exists>xs. s = xs @ s'"
  then obtain xs where "s = xs @ s'" ..
  with assms have "s' = [] \<or> \<not> oneOf ''.!?'' (last s')" by auto
  then show "matchFrames [R trailingPunctRe] pre' s' [] = None" by (rule trailingPunct_frames)
qed

lemma decimalNumeral_cases:
  assumes "decimalNumeral num"
  obtains (int) "list_all isDigit num" "num \<noteq> []"
  | (frac) ds fs where "num = ds @ 46 # fs" "list_all isDigit ds" "ds \<noteq> []"
      "list_all isDigit fs" "fs \<noteq> []"
proof (cases "dropWhile isDigit num")
  case Nil
  then have "list_all isDigit num" by (simp add: list_all_iff)
  moreover from assms have "num \<noteq> []" unfolding decimalNumeral_def Nil by simp
  ultimately show ?thesis by (rule int)
next
  case (Cons c fs)
  with assms have *: "takeWhile isDigit num \<noteq> []" "c = 46" "fs \<noteq> []" "list_all isDigit fs"
    by (simp_all add: decimalNumeral_def)
  have "num = takeWhile isDigit num @ dropWhile isDigit num" by simp
  with Cons * have "num = takeWhile isDigit num @ 46 # fs" by simp
  moreover have "list_all isDigit (takeWhile isDigit num)"
    by (simp add: list_all_iff) (meson set_takeWhileD)
  ultimately show ?thesis using * by (intro frac)
qed

lemma decimalNumeral_last: "decimalNumeral num \<Longrightarrow> num \<noteq> [] \<and> isDigit (last num)"
  by (erule decimalNumeral_cases) (auto simp: list_all_iff)

lemma numericMatch_dollar:
  assumes "decimalNumeral num"
  shows "matchRe numericMatchRe (36 # num) = Some [(0, 36 # num), (1, num)]"
  using assms
proof (cases rule: decimalNumeral_cases)
  case int
  then show ?thesis
    by (simp add: matchRe_def search_anchored_start [OF numericMatchRe_anchored] numeric_int
        wholeMatch_def)
next
  case (frac ds fs)
  then show ?thesis
    by (simp add: matchRe_def search_anchored_start [OF numericMatchRe_anchored] numeric_frac
        wholeMatch_def)
qed

lemma dollar_not_unsure:
  assumes "jsTrim t = 36 # num" "decimalNumeral num"
  shows "\<not> isUnsurePhrase (jsTrim t)"
proof -
  from assms(2) have l: "num \<noteq> []" "isDigit (last num)" using decimalNumeral_last by auto
  then have "\<not> oneOf ''.!?'' (last (36 # num))"
    by (auto simp: oneOf_def js_def isDigit_def)
  then have "regexSearch trailingPunctRe [] (36 # num) = None"
    by (intro trailingPunct_search disjI2)
  then have "removeFirst trailingPunctRe (36 # num) = 36 # num"
    by (simp only: removeFirst_def option.case)
  moreover have "jsTrim (36 # num) = 36 # num"
    using jsTrim_idem [of t] by (simp add: assms(1))
  ultimately show ?thesis
    by (simp add: isUnsurePhrase_def Let_def assms(1) regexTest_def dollar_UNSURE_PATTERN
        dollar_unsureHaveRe)
qed

text \<open>
  Claim C10. A trimmed message that consists only of a dollar sign followed by a positive
  number (a decimal numeral: digits, optionally a point and digits), such as "$45", is
  treated by the pre-pass of the turn handler as a bare number: when both quantity and
  budgetPerUnitUsd are unset in the incoming state the number is assigned to quantity (not
  to the budget), and when quantity is set and the budget is not, it is assigned to
  budgetPerUnitUsd.
\<close>

theorem POST_dollar_number:
  assumes "jsTrim message = 36 # num" "decimalNumeral num"
    and "parseFloat (Some num) = n" "positive n"
  shows "(quantity st = None \<and> budgetPerUnitUsd st = None \<longrightarrow>
            state (POST message st) = st\<lparr>quantity := Some n\<rparr>) \<and>
         (quantity st \<noteq> None \<and> budgetPerUnitUsd st = None \<longrightarrow>
            state (POST message st) = st\<lparr>budgetPerUnitUsd := Some n\<rparr>)"
proof -
  have unsure: "\<not> isUnsurePhrase (jsTrim message)"
    by (rule dollar_not_unsure [OF assms(1,2)])
  have range: "rangeMatch (jsTrim message) = None"
    using assms(1) by (simp add: dollar_rangeMatch)
  have num: "matchRe numericMatchRe (jsTrim message) = Some [(0, 36 # num), (1, num)]"
    using assms(1,2) by (simp add: numericMatch_dollar)
  have g: "grp 1 [(0, 36 # num), (1, num)] = Some num"
    by (simp add: grp_def)
  have st1: "applyMessage message st =
      (if quantity st = None \<and> budgetPerUnitUsd st = None then st\<lparr>quantity := Some n\<rparr>
       else if quantity st \<noteq> None \<and> budgetPerUnitUsd st = None then st\<lparr>budgetPerUnitUsd := Some n\<rparr>
       else extractFromText message st)"
    using assms(3,4) by (simp add: applyMessage_def Let_def unsure range num grp_def)
  have "state (POST message st) = applyMessage message st"
    by (simp add: POST_def Let_def unsure)
  with st1 show ?thesis by simp
qed

lemma trim_dollar_45: "jsTrim (js ''$45'') = 36 # js ''45''"
  by (simp add: jsTrim_def js_def isSpace_def)

lemma decimalNumeral_45: "decimalNumeral (js ''45'')"
  by (simp add: decimalNumeral_def js_def isDigit_def)

theorem POST_dollar_number_witness:
  "state (POST (js ''$45'') emptyState) = emptyState\<lparr>quantity := Some (Fin 45)\<rparr> \<and>
   state (POST (js ''$45'') (emptyState\<lparr>quantity := Some (Fin 40)\<rparr>)) =
     emptyState\<lparr>quantity := Some (Fin 40), budgetPerUnitUsd := Some (Fin 45)\<rparr>"
  using
    POST_dollar_number [OF trim_dollar_45 decimalNumeral_45, of "Fin 45" emptyState]
    POST_dollar_number [OF trim_dollar_45 decimalNumeral_45, of "Fin 45"
      "emptyState\<lparr>quantity := Some (Fin 40)\<rparr>"]
  by (simp add: parse_small positive_def gt_def emptyState_def)

subsection \<open>A bare range\<close>

text \<open>
  "17.99 to 22.50" on a state with a quantity and no budget: the midpoint in cents is
  computed in doubles. The sum is 40.489999999999995, its half times 100 is
  2024.4999999999998, which rounds to 2024: the budget is the double that 20.24 denotes.
\<close>

lemma bare_range_unsure: "\<not> isUnsurePhrase (jsTrim (js ''17.99 to 22.50''))"
  by (simp add: isUnsurePhrase_def Let_def removeFirst_def jsTrim_def rx_steps rx_patterns
      cong: rx_blocked)

lemma bare_range_match:
  "rangeMatch (jsTrim (js ''17.99 to 22.50'')) =
     Some [(0, js ''17.99 to 22.50''), (2, js ''22.50''), (1, js ''17.99'')]"
  by (simp add: rangeMatch_def jsTrim_def rx_steps rx_patterns cong: rx_blocked)

lemma bare_range_parse:
  "parseFloat (Some (js ''17.99'')) = Fin (5063734831024701 / 281474976710656)"
  "parseFloat (Some (js ''22.50'')) = Fin (45 / 2)"
  "parseFloat (Some (js ''20.24'')) = Fin (5697053528623677 / 281474976710656)"
proof -
  have "parseFloat (Some (js ''17.99'')) = roundDouble (1799 / 100)"
    by (simp add: parse_defs)
  then show "parseFloat (Some (js ''17.99'')) = Fin (5063734831024701 / 281474976710656)"
    by (simp add: num_eval)
  have "parseFloat (Some (js ''22.50'')) = roundDouble (45 / 2)"
    by (simp add: parse_defs)
  then show "parseFloat (Some (js ''22.50'')) = Fin (45 / 2)"
    by (simp add: num_eval)
  have "parseFloat (Some (js ''20.24'')) = roundDouble (2024 / 100)"
    by (simp add: parse_defs)
  then show "parseFloat (Some (js ''20.24'')) = Fin (5697053528623677 / 281474976710656)"
    by (simp add: num_eval)
qed

lemma bare_range_mid:
  "midpointCents (Fin (5063734831024701 / 281474976710656)) (Fin (45 / 2)) =
     Fin (5697053528623677 / 281474976710656)"
proof -
  have "dadd (Fin (5063734831024701 / 281474976710656)) (Fin (45 / 2)) = Fin (2849230451753615 / 70368744177664)"
    by (simp add: num_ops num_eval)
  moreover have "ddiv (Fin (2849230451753615 / 70368744177664)) (Fin 2) = Fin (2849230451753615 / 140737488355328)"
    by (simp add: num_ops num_eval)
  moreover have "dmul (Fin (2849230451753615 / 140737488355328)) (Fin 100) = Fin (8903845161730047 / 4398046511104)"
    by (simp add: num_ops num_eval)
  moreover have "mathRound (Fin (8903845161730047 / 4398046511104)) = Fin 2024"
    by (simp add: num_ops floor_rat_numeral)
  moreover have "ddiv (Fin 2024) (Fin 100) = Fin (5697053528623677 / 281474976710656)"
    by (simp add: num_ops num_eval)
  ultimately show ?thesis by (simp add: midpointCents_def)
qed

lemma POST_bare_range_cents:
  "budgetPerUnitUsd (state (POST (js ''17.99 to 22.50'') (emptyState\<lparr>quantity := Some (Fin 40)\<rparr>))) =
     Some (parseFloat (Some (js ''20.24'')))"
proof -
  have "rangeMid [(0, js ''17.99 to 22.50''), (2, js ''22.50''), (1, js ''17.99'')] =
      Fin (5697053528623677 / 281474976710656)"
    by (simp add: rangeMid_def grp_def bare_range_parse bare_range_mid positive_def gt_def)
  then have "applyMessage (js ''17.99 to 22.50'') (emptyState\<lparr>quantity := Some (Fin 40)\<rparr>) =
      emptyState\<lparr>quantity := Some (Fin 40),
        budgetPerUnitUsd := Some (Fin (5697053528623677 / 281474976710656))\<rparr>"
    by (simp add: applyMessage_def Let_def bare_range_unsure bare_range_match emptyState_def)
  then show ?thesis
    by (simp add: POST_def Let_def bare_range_unsure bare_range_parse)
qed

subsection \<open>Two turns on which the handler departs from the specification\<close>

lemma bulkOrder_streamlined: "mode (computeComplexity bulkOrder) = Streamlined"
  by (simp add: computeComplexity_def rawScore_def scoreRule_def modeOfScore_def tightDeadline_def
      largeQuantity_def gt_def W_mid_december bulkOrder_def emptyState_def)

lemma bulkOrder_skipped:
  "skipDefault ''branding'' bulkOrder = Some (bulkOrder\<lparr>branding := Some NoBranding\<rparr>)"
  by (simp add: skipDefault_def)

text \<open>
  Claim C5 says that nextField is never "email" on a turn whose tier is streamlined, also
  after an unsure default has been applied. On the bulk order that lacks only branding and
  a contact, the message "I don't know" makes the handler apply the default branding = none
  and choose nextField again; the second choice does not look at the tier, and the turn
  ends streamlined with nextField = "email".
\<close>

theorem POST_streamlined_asks_email:
  "mode (complexity (POST (js ''I don't know'') bulkOrder)) = Streamlined \<and>
   missing (POST (js ''I don't know'') bulkOrder) = [''email''] \<and>
   nextField (POST (js ''I don't know'') bulkOrder) = Some ''email''"
proof -
  have sel: "selectNextField Streamlined bulkOrder (nextMissing bulkOrder) = Some ''branding''"
    by (simp add: selectNextField_def firstNonEmail_def nextMissing_def pushIf_def bulkOrder_def
        emptyState_def)
  have again: "nextMissing (bulkOrder\<lparr>branding := Some NoBranding\<rparr>) = [''email'']"
    by (simp add: nextMissing_def pushIf_def bulkOrder_def emptyState_def)
  have post: "POST (js ''I don't know'') bulkOrder =
      \<lparr>state = bulkOrder\<lparr>branding := Some NoBranding\<rparr>, complexity = computeComplexity bulkOrder,
       missing = [''email''], nextField = reselectNextField [''email''],
       deterministicBundles = bundlesFor Streamlined [''email''] (bulkOrder\<lparr>branding := Some NoBranding\<rparr>)\<rparr>"
    by (simp add: POST_def applyMessage_def Let_def idk_unsure bulkOrder_streamlined sel
        bulkOrder_skipped again)
  show ?thesis
    by (simp add: post bulkOrder_streamlined reselectNextField_def firstNonEmail_def)
qed

lemma five_halves_not_integer: "(5 / 2 :: rat) \<notin> \<int>"
proof
  assume "(5 / 2 :: rat) \<in> \<int>"
  then obtain k :: int where "(5 / 2 :: rat) = of_int k" by (auto elim: Ints_cases)
  then have "(of_int 5 :: rat) = of_int (2 * k)" by simp
  then have "5 = 2 * k" by (simp only: of_int_eq_iff)
  then show False by presburger
qed

text \<open>
  Claim C8 says that a quantity in the returned state is a positive integer. The bare
  number "2.5" on the empty state is assigned to quantity as it is: the range branch rounds
  its midpoint, the bare-number branch does not round.
\<close>

theorem POST_bare_number_not_rounded:
  "quantity (state (POST (js ''2.5'') emptyState)) = Some (Fin (5 / 2)) \<and> (5 / 2 :: rat) \<notin> \<int>"
proof -
  have "applyMessage (js ''2.5'') emptyState = emptyState\<lparr>quantity := Some (Fin (5 / 2))\<rparr>"
    by (simp add: applyMessage_def Let_def W_bare_unsure W_bare_range W_bare_numeric grp_def
        W_parse_bare positive_def gt_def emptyState_def)
  then have "state (POST (js ''2.5'') emptyState) = emptyState\<lparr>quantity := Some (Fin (5 / 2))\<rparr>"
    by (simp add: POST_def Let_def W_bare_unsure)
  then show ?thesis
    using five_halves_not_integer by simp
qed

end
